theory Spec2Isabelle
  imports Complex_Main "HOL-Library.Word" "HOL-Library.Multiset"
begin

unbundle bit_operations_syntax

section \<open>Conventions of the embedding\<close>

text \<open>
  The Python sources under \<open>vega_ml/synthetic_spectra\<close> are embedded shallowly.
  Python \<open>int\<close> is \<open>int\<close>, \<open>bytes\<close> are lists of 8-bit words, \<open>str\<close> is \<open>string\<close>, and
  every exception the modelled code can raise is a value of \<open>py_error\<close> returned on the
  left of a sum.
\<close>

datatype py_error =
  ZeroDivisionError | ValueError | TypeError | IndexError | StructError | OverflowError

section \<open>Floating-point values and machine arithmetic\<close>

text \<open>
  A Python \<open>float\<close> or numpy \<open>float64\<close> is a \<open>double\<close>: a finite value (the real number
  it denotes; the two zeros are not told apart), plus or minus infinity, or not a
  number. Configuration fields, energies and activities handed to the code are finite
  and are written as \<open>real\<close>.
\<close>

datatype double = Fin real | PInf | NInf | NaN

text \<open>Comparison is exact; every comparison with \<open>nan\<close> is false.\<close>

fun d_less :: "double \<Rightarrow> double \<Rightarrow> bool" where
  "d_less NaN _ = False"
| "d_less _ NaN = False"
| "d_less (Fin a) (Fin b) = (a < b)"
| "d_less _ NInf = False"
| "d_less PInf _ = False"
| "d_less NInf _ = True"
| "d_less _ PInf = True"

text \<open>
  The arithmetic of the machine rounds, overflows and underflows. It is not fixed by
  the embedding: the operations the modelled code uses are the fields of a record
  \<open>fpu\<close>, which every function that computes with floats takes as its first argument.
  \<open>f_lit\<close> is the double a decimal literal of the source denotes (used for the literals
  that binary floating point cannot represent, \<open>65.535\<close>, \<open>0.1\<close> and \<open>0.3\<close>; integers and
  \<open>0.5\<close> are exact), \<open>f_of_int\<close> the conversion of a Python \<open>int\<close> (not finite when the
  integer is out of range), and the four others the basic operations.
\<close>

record fpu =
  f_lit :: "real \<Rightarrow> double"
  f_of_int :: "int \<Rightarrow> double"
  f_add :: "double \<Rightarrow> double \<Rightarrow> double"
  f_sub :: "double \<Rightarrow> double \<Rightarrow> double"
  f_mul :: "double \<Rightarrow> double \<Rightarrow> double"
  f_div :: "double \<Rightarrow> double \<Rightarrow> double"

text \<open>
  Exact arithmetic: the operations without rounding, with the usual rules for the
  values that are not finite. It is the instance at which the round-trip properties
  are stated.
\<close>

fun x_neg :: "double \<Rightarrow> double" where
  "x_neg (Fin a) = Fin (- a)"
| "x_neg PInf = NInf"
| "x_neg NInf = PInf"
| "x_neg NaN = NaN"

fun x_add :: "double \<Rightarrow> double \<Rightarrow> double" where
  "x_add (Fin a) (Fin b) = Fin (a + b)"
| "x_add NaN _ = NaN"
| "x_add _ NaN = NaN"
| "x_add PInf NInf = NaN"
| "x_add NInf PInf = NaN"
| "x_add PInf _ = PInf"
| "x_add _ PInf = PInf"
| "x_add NInf _ = NInf"
| "x_add _ NInf = NInf"

definition x_sub :: "double \<Rightarrow> double \<Rightarrow> double" where
  "x_sub a b = x_add a (x_neg b)"

text \<open>The sign of a product or quotient with an infinite operand.\<close>

definition x_signed_inf :: "bool \<Rightarrow> double" where
  "x_signed_inf positive = (if positive then PInf else NInf)"

fun x_mul :: "double \<Rightarrow> double \<Rightarrow> double" where
  "x_mul (Fin a) (Fin b) = Fin (a * b)"
| "x_mul NaN _ = NaN"
| "x_mul _ NaN = NaN"
| "x_mul PInf (Fin b) = (if b = 0 then NaN else x_signed_inf (0 < b))"
| "x_mul NInf (Fin b) = (if b = 0 then NaN else x_signed_inf (b < 0))"
| "x_mul (Fin a) PInf = (if a = 0 then NaN else x_signed_inf (0 < a))"
| "x_mul (Fin a) NInf = (if a = 0 then NaN else x_signed_inf (a < 0))"
| "x_mul PInf PInf = PInf"
| "x_mul PInf NInf = NInf"
| "x_mul NInf PInf = NInf"
| "x_mul NInf NInf = PInf"

fun x_div :: "double \<Rightarrow> double \<Rightarrow> double" where
  "x_div (Fin a) (Fin b) =
     (if b = 0 then (if a = 0 then NaN else x_signed_inf (0 < a)) else Fin (a / b))"
| "x_div NaN _ = NaN"
| "x_div _ NaN = NaN"
| "x_div (Fin a) PInf = Fin 0"
| "x_div (Fin a) NInf = Fin 0"
| "x_div PInf (Fin b) = x_signed_inf (0 \<le> b)"
| "x_div NInf (Fin b) = x_signed_inf (b < 0)"
| "x_div PInf PInf = NaN"
| "x_div PInf NInf = NaN"
| "x_div NInf PInf = NaN"
| "x_div NInf NInf = NaN"

definition exact_fpu :: fpu where
  "exact_fpu =
     \<lparr> f_lit = Fin, f_of_int = (\<lambda>n. Fin (real_of_int n)),
       f_add = x_add, f_sub = x_sub, f_mul = x_mul, f_div = x_div \<rparr>"

text \<open>
  Python's \<open>int(x)\<close> on a float truncates towards zero; it raises \<open>OverflowError\<close> on an
  infinity and \<open>ValueError\<close> on \<open>nan\<close>.
\<close>

definition py_int :: "double \<Rightarrow> py_error + int" where
  "py_int x =
     (case x of
        Fin r \<Rightarrow> Inr (if 0 \<le> r then \<lfloor>r\<rfloor> else \<lceil>r\<rceil>)
      | PInf \<Rightarrow> Inl OverflowError
      | NInf \<Rightarrow> Inl OverflowError
      | NaN \<Rightarrow> Inl ValueError)"

text \<open>
  The conversion of a Python \<open>int\<close> operand to a float raises \<open>OverflowError\<close> when the
  integer is too large for a double.
\<close>

definition py_float_of_int :: "fpu \<Rightarrow> int \<Rightarrow> py_error + double" where
  "py_float_of_int m n =
     (case f_of_int m n of Fin r \<Rightarrow> Inr (Fin r) | _ \<Rightarrow> Inl OverflowError)"

text \<open>Python's true division of floats raises on a divisor that is zero.\<close>

definition py_truediv :: "fpu \<Rightarrow> double \<Rightarrow> double \<Rightarrow> py_error + double" where
  "py_truediv m a b = (if b = Fin 0 then Inl ZeroDivisionError else Inr (f_div m a b))"

section \<open>Detector configuration (config.py)\<close>

record DetectorConfig =
  name :: string
  energy_min_kev :: real
  energy_max_kev :: real
  num_channels :: int
  skip_first_channel :: bool
  fwhm_at_662 :: real
  fwhm_uncertainty :: real
  crystal_type :: string
  sensitivity_cps_per_usvh :: real
  detector_volume_cm3 :: real

text \<open>The dataclass defaults: only \<open>name\<close> is mandatory.\<close>

definition default_DetectorConfig :: "string \<Rightarrow> DetectorConfig" where
  "default_DetectorConfig n =
     \<lparr> name = n, energy_min_kev = 20, energy_max_kev = 3000, num_channels = 1024,
       skip_first_channel = True, fwhm_at_662 = 0.084, fwhm_uncertainty = 0.003,
       crystal_type = ''CsI(Tl)'', sensitivity_cps_per_usvh = 30,
       detector_volume_cm3 = 1 \<rparr>"

definition radiacode_101 :: DetectorConfig where
  "radiacode_101 = (default_DetectorConfig ''Radiacode 101'')
     \<lparr> fwhm_at_662 := 0.095, fwhm_uncertainty := 0.004, crystal_type := ''CsI(Tl)'',
       sensitivity_cps_per_usvh := 30, detector_volume_cm3 := 1 \<rparr>"

definition radiacode_102 :: DetectorConfig where
  "radiacode_102 = (default_DetectorConfig ''Radiacode 102'')
     \<lparr> fwhm_at_662 := 0.095, fwhm_uncertainty := 0.004, crystal_type := ''CsI(Tl)'',
       sensitivity_cps_per_usvh := 30, detector_volume_cm3 := 1 \<rparr>"

definition radiacode_103 :: DetectorConfig where
  "radiacode_103 = (default_DetectorConfig ''Radiacode 103'')
     \<lparr> fwhm_at_662 := 0.084, fwhm_uncertainty := 0.003, crystal_type := ''CsI(Tl)'',
       sensitivity_cps_per_usvh := 30, detector_volume_cm3 := 1 \<rparr>"

definition radiacode_103g :: DetectorConfig where
  "radiacode_103g = (default_DetectorConfig ''Radiacode 103G'')
     \<lparr> energy_min_kev := 25, fwhm_at_662 := 0.074, fwhm_uncertainty := 0.003,
       crystal_type := ''GAGG(Ce)'', sensitivity_cps_per_usvh := 40,
       detector_volume_cm3 := 1 \<rparr>"

definition radiacode_110 :: DetectorConfig where
  "radiacode_110 = (default_DetectorConfig ''Radiacode 110'')
     \<lparr> fwhm_at_662 := 0.084, fwhm_uncertainty := 0.003, crystal_type := ''CsI(Tl)'',
       sensitivity_cps_per_usvh := 77, detector_volume_cm3 := 2.5 \<rparr>"

text \<open>The preset table, in the order the dictionary literal lists it.\<close>

definition RADIACODE_CONFIGS :: "(string \<times> DetectorConfig) list" where
  "RADIACODE_CONFIGS =
     [(''radiacode_101'', radiacode_101), (''radiacode_102'', radiacode_102),
      (''radiacode_103'', radiacode_103), (''radiacode_103g'', radiacode_103g),
      (''radiacode_110'', radiacode_110)]"

definition get_default_config :: DetectorConfig where
  "get_default_config = radiacode_103"

definition get_channel_width_kev :: "fpu \<Rightarrow> DetectorConfig \<Rightarrow> py_error + double" where
  "get_channel_width_kev m c =
     (case py_float_of_int m (num_channels c) of
        Inl e \<Rightarrow> Inl e
      | Inr n \<Rightarrow> py_truediv m (f_sub m (Fin (energy_max_kev c)) (Fin (energy_min_kev c))) n)"

text \<open>
  \<open>get_energy_bins\<close>: the centers of the raw channels \<open>start..num_channels-1\<close>;
  \<open>np.arange\<close> is empty when the start is not below the stop. The array operations
  work element by element and do not raise.
\<close>

definition get_energy_bins :: "fpu \<Rightarrow> DetectorConfig \<Rightarrow> py_error + double list" where
  "get_energy_bins m c =
     (case get_channel_width_kev m c of
        Inl e \<Rightarrow> Inl e
      | Inr channel_width \<Rightarrow>
          let start_raw_channel = (if skip_first_channel c then 1 else 0) :: int;
              raw_channels = map (f_of_int m) [start_raw_channel .. num_channels c - 1]
          in Inr (map (\<lambda>k. f_add m (Fin (energy_min_kev c))
                               (f_mul m (f_add m k (Fin 0.5)) channel_width))
                   raw_channels))"

definition energy_to_channel :: "fpu \<Rightarrow> DetectorConfig \<Rightarrow> real \<Rightarrow> py_error + int" where
  "energy_to_channel m c energy_kev =
     (case get_channel_width_kev m c of
        Inl e \<Rightarrow> Inl e
      | Inr channel_width \<Rightarrow>
          (case py_truediv m (f_sub m (Fin energy_kev) (Fin (energy_min_kev c))) channel_width of
             Inl e \<Rightarrow> Inl e
           | Inr q \<Rightarrow>
               (case py_int q of
                  Inl e \<Rightarrow> Inl e
                | Inr raw_channel \<Rightarrow>
                    let channel = (if skip_first_channel c then raw_channel - 1
                                   else raw_channel);
                        max_channel = (if skip_first_channel c then num_channels c - 2
                                       else num_channels c - 1)
                    in Inr (max 0 (min max_channel channel)))))"

definition channel_to_energy :: "fpu \<Rightarrow> DetectorConfig \<Rightarrow> int \<Rightarrow> py_error + double" where
  "channel_to_energy m c channel =
     (case get_channel_width_kev m c of
        Inl e \<Rightarrow> Inl e
      | Inr channel_width \<Rightarrow>
          let raw_channel = channel + (if skip_first_channel c then 1 else 0);
              raw_channel' = max 0 (min (num_channels c - 1) raw_channel)
          in case py_float_of_int m raw_channel' of
               Inl e \<Rightarrow> Inl e
             | Inr r \<Rightarrow>
                 Inr (f_add m (Fin (energy_min_kev c))
                        (f_mul m (f_add m r (Fin 0.5)) channel_width)))"

text \<open>The calibration round trip \<open>channel_to_energy(energy_to_channel(E))\<close>.\<close>

definition calibration_round_trip :: "fpu \<Rightarrow> DetectorConfig \<Rightarrow> real \<Rightarrow> py_error + double" where
  "calibration_round_trip m c energy_kev =
     (case energy_to_channel m c energy_kev of
        Inl e \<Rightarrow> Inl e
      | Inr ch \<Rightarrow> channel_to_energy m c ch)"

section \<open>Python dictionaries\<close>

text \<open>
  A dictionary is a partial map. A dictionary comprehension stores its pairs from left
  to right (a later pair with the same key wins), and \<open>d.get(k, default)\<close> falls back
  to the default on a missing key.
\<close>

definition dict_comprehension :: "('k \<times> 'v) list \<Rightarrow> ('k \<rightharpoonup> 'v)" where
  "dict_comprehension kvs = fold (\<lambda>(k, v) m. m(k \<mapsto> v)) kvs Map.empty"

definition dict_get :: "('k \<rightharpoonup> 'v) \<Rightarrow> 'k \<Rightarrow> 'v \<Rightarrow> 'v" where
  "dict_get d k dflt = (case d k of None \<Rightarrow> dflt | Some v \<Rightarrow> v)"

section \<open>Isotope database (ground_truth/isotope_data.py)\<close>

text \<open>
  \<open>ISOTOPE_DATABASE\<close> in insertion order. Of each \<open>Isotope\<close> the label codec and the
  scenario pools read the name and whether \<open>gamma_lines\<close> is empty, so an entry is the
  name with the number of its \<open>GammaLine\<close> records. The database is keyed by the
  isotope's own name, so names do not repeat.
\<close>

definition ISOTOPE_DATABASE :: "(string \<times> nat) list" where
  "ISOTOPE_DATABASE =
     [(''K-40'', 1), (''Be-7'', 1), (''C-14'', 0), (''Na-22'', 2), (''U-238'', 1),
      (''Th-234'', 3), (''Pa-234m'', 2), (''U-234'', 1), (''Th-230'', 2), (''Ra-226'', 1),
      (''Rn-222'', 1), (''Po-218'', 0), (''Pb-214'', 3), (''Bi-214'', 7), (''Po-214'', 1),
      (''Pb-210'', 1), (''Bi-210'', 0), (''Po-210'', 1), (''Th-232'', 1), (''Ra-228'', 0),
      (''Ac-228'', 7), (''Th-228'', 2), (''Ra-224'', 1), (''Rn-220'', 1), (''Po-216'', 0),
      (''Pb-212'', 2), (''Bi-212'', 3), (''Tl-208'', 5), (''Po-212'', 0), (''U-235'', 4),
      (''Th-231'', 2), (''Pa-231'', 4), (''Ac-227'', 0), (''Pb-211'', 3), (''Bi-211'', 1),
      (''Tl-207'', 1), (''Am-241'', 2), (''Cs-137'', 1), (''Ba-137m'', 1), (''Co-60'', 2),
      (''Ba-133'', 7), (''Cd-109'', 1), (''Eu-152'', 11), (''Eu-154'', 9), (''Mn-54'', 1),
      (''Zn-65'', 2), (''Co-57'', 3), (''Sr-85'', 1), (''Y-88'', 2), (''Ce-139'', 1),
      (''Sn-113'', 1), (''Hg-203'', 1), (''Se-75'', 5), (''Ir-192'', 6), (''Tc-99m'', 1),
      (''I-131'', 5), (''I-123'', 2), (''F-18'', 1), (''Ga-67'', 4), (''In-111'', 2),
      (''Tl-201'', 5), (''Lu-177'', 2), (''Sm-153'', 2), (''Xe-133'', 1), (''Ra-223'', 4),
      (''Cs-134'', 8), (''Ru-106'', 0), (''Rh-106'', 3), (''Ce-144'', 2), (''Pr-144'', 3),
      (''Sb-125'', 8), (''Co-58'', 2), (''Sr-90'', 0), (''Y-90'', 0), (''I-129'', 1),
      (''Fe-59'', 4), (''Cr-51'', 1), (''Ta-182'', 9), (''Sc-46'', 2), (''Au-198'', 2),
      (''Ag-110m'', 14), (''Hf-181'', 4)]"

definition get_all_isotopes :: "(string \<times> nat) list" where
  "get_all_isotopes = ISOTOPE_DATABASE"

section \<open>Master isotope list and binary labels (generate_spectra_v4.py)\<close>

text \<open>The names of \<open>_all_isotopes\<close>: the isotopes with at least one gamma line.\<close>

definition all_isotopes_names :: "string list" where
  "all_isotopes_names = map fst (filter (\<lambda>isotope. 0 < snd isotope) get_all_isotopes)"

definition ISOTOPE_INDEX :: "string \<rightharpoonup> nat" where
  "ISOTOPE_INDEX = dict_comprehension (map (\<lambda>(i, n). (n, i)) (enumerate 0 all_isotopes_names))"

definition INDEX_TO_ISOTOPE :: "nat \<rightharpoonup> string" where
  "INDEX_TO_ISOTOPE = dict_comprehension (enumerate 0 all_isotopes_names)"

definition NUM_ISOTOPES :: nat where
  "NUM_ISOTOPES = length all_isotopes_names"

type_synonym byte = "8 word"

text \<open>\<open>bytearray.append(v)\<close> raises \<open>ValueError\<close> unless \<open>0 \<le> v < 256\<close>.\<close>

definition bytearray_append :: "byte list \<Rightarrow> int \<Rightarrow> py_error + byte list" where
  "bytearray_append data v =
     (if 0 \<le> v \<and> v < 256 then Inr (data @ [word_of_int v]) else Inl ValueError)"

text \<open>\<open>struct.pack('<H', v)\<close>: two bytes, low byte first; out of range raises.\<close>

definition struct_pack_H :: "int \<Rightarrow> py_error + byte list" where
  "struct_pack_H v =
     (if 0 \<le> v \<and> v \<le> 65535 then Inr [word_of_int v, word_of_int (v div 256)]
      else Inl StructError)"

text \<open>\<open>struct.unpack('<H', b)[0]\<close>: the buffer must hold exactly two bytes.\<close>

definition struct_unpack_H :: "byte list \<Rightarrow> py_error + int" where
  "struct_unpack_H b =
     (case b of [lo, hi] \<Rightarrow> Inr (uint lo + 256 * uint hi) | _ \<Rightarrow> Inl StructError)"

text \<open>\<open>data[offset]\<close> on \<open>bytes\<close> with a non-negative offset.\<close>

definition bytes_index :: "byte list \<Rightarrow> nat \<Rightarrow> py_error + nat" where
  "bytes_index data offset =
     (if offset < length data then Inr (unat (data ! offset)) else Inl IndexError)"

text \<open>The decimal rendering of a non-negative integer in an f-string.\<close>

fun str_of_nat :: "nat \<Rightarrow> string" where
  "str_of_nat n =
     (if n < 10 then [char_of (48 + n)]
      else str_of_nat (n div 10) @ [char_of (48 + n mod 10)])"

text \<open>
  The quantisation of one activity in \<open>pack_labels\<close>:
  \<open>scaled = int(min(activity, 1000.0) * 65.535); scaled = max(0, min(65535, scaled))\<close>.
  The product is the machine's; \<open>int\<close> raises when it is not finite.
\<close>

definition scale_activity :: "fpu \<Rightarrow> real \<Rightarrow> py_error + int" where
  "scale_activity m activity =
     (case py_int (f_mul m (Fin (min activity 1000)) (f_lit m 65.535)) of
        Inl e \<Rightarrow> Inl e
      | Inr scaled \<Rightarrow> Inr (max 0 (min 65535 scaled)))"

text \<open>The first loop of \<open>pack_labels\<close>: one index byte per name.\<close>

fun pack_indices :: "byte list \<Rightarrow> string list \<Rightarrow> py_error + byte list" where
  "pack_indices data [] = Inr data"
| "pack_indices data (isotope # rest) =
     (let idx = dict_get ISOTOPE_INDEX isotope 0
      in case bytearray_append data (int idx) of
           Inl e \<Rightarrow> Inl e
         | Inr data' \<Rightarrow> pack_indices data' rest)"

text \<open>The second loop of \<open>pack_labels\<close>: two activity bytes per name.\<close>

fun pack_activities ::
  "fpu \<Rightarrow> byte list \<Rightarrow> string list \<Rightarrow> (string \<rightharpoonup> real) \<Rightarrow> py_error + byte list" where
  "pack_activities m data [] activities = Inr data"
| "pack_activities m data (isotope # rest) activities =
     (let activity = dict_get activities isotope 0
      in case scale_activity m activity of
           Inl e \<Rightarrow> Inl e
         | Inr scaled \<Rightarrow>
             (case struct_pack_H scaled of
                Inl e \<Rightarrow> Inl e
              | Inr b \<Rightarrow> pack_activities m (data @ b) rest activities))"

definition pack_flag_byte :: "(string \<rightharpoonup> bool) \<Rightarrow> byte" where
  "pack_flag_byte flags =
     (let flag_byte = 0;
          flag_byte = (if dict_get flags ''normalized'' True then flag_byte OR 0x01 else flag_byte);
          flag_byte = (if dict_get flags ''include_k40'' True then flag_byte OR 0x02 else flag_byte);
          flag_byte = (if dict_get flags ''include_radon'' True then flag_byte OR 0x04 else flag_byte);
          flag_byte = (if dict_get flags ''include_thorium'' True then flag_byte OR 0x08 else flag_byte)
      in flag_byte)"

definition pack_labels ::
  "fpu \<Rightarrow> string list \<Rightarrow> (string \<rightharpoonup> real) \<Rightarrow> (string \<rightharpoonup> bool) \<Rightarrow> py_error + byte list" where
  "pack_labels m isotopes activities flags =
     (let num_iso = length isotopes
      in case bytearray_append [] (int (min num_iso 255)) of
           Inl e \<Rightarrow> Inl e
         | Inr data \<Rightarrow>
             (case pack_indices data (take 255 isotopes) of
                Inl e \<Rightarrow> Inl e
              | Inr data \<Rightarrow>
                  (case pack_activities m data (take 255 isotopes) activities of
                     Inl e \<Rightarrow> Inl e
                   | Inr data \<Rightarrow> Inr (data @ [pack_flag_byte flags]))))"

record UnpackedLabel =
  isotopes :: "string list"
  activities :: "string \<rightharpoonup> double"
  normalized :: bool
  include_k40 :: bool
  include_radon :: bool
  include_thorium :: bool

text \<open>The first loop of \<open>unpack_labels\<close>, \<open>for _ in range(num_iso)\<close>.\<close>

fun unpack_indices ::
  "byte list \<Rightarrow> nat \<Rightarrow> nat \<Rightarrow> string list \<Rightarrow> py_error + (string list \<times> nat)" where
  "unpack_indices data offset 0 isos = Inr (isos, offset)"
| "unpack_indices data offset (Suc k) isos =
     (case bytes_index data offset of
        Inl e \<Rightarrow> Inl e
      | Inr idx \<Rightarrow>
          unpack_indices data (offset + 1) k
            (isos @ [dict_get INDEX_TO_ISOTOPE idx (''Unknown-'' @ str_of_nat idx)]))"

text \<open>
  The second loop of \<open>unpack_labels\<close>, \<open>for iso in isotopes\<close>. The stored integer is at
  most 65535, which every double represents, and the divisor is a literal that is not
  zero, so \<open>scaled / 65.535\<close> is the machine's quotient and does not raise.
\<close>

definition decode_activity :: "fpu \<Rightarrow> int \<Rightarrow> double" where
  "decode_activity m scaled = f_div m (Fin (real_of_int scaled)) (f_lit m 65.535)"

fun unpack_activities ::
  "fpu \<Rightarrow> byte list \<Rightarrow> nat \<Rightarrow> string list \<Rightarrow> (string \<rightharpoonup> double)
     \<Rightarrow> py_error + ((string \<rightharpoonup> double) \<times> nat)" where
  "unpack_activities m data offset [] acts = Inr (acts, offset)"
| "unpack_activities m data offset (isotope # rest) acts =
     (case struct_unpack_H (take 2 (drop offset data)) of
        Inl e \<Rightarrow> Inl e
      | Inr scaled \<Rightarrow>
          unpack_activities m data (offset + 2) rest (acts(isotope \<mapsto> decode_activity m scaled)))"

definition unpack_labels :: "fpu \<Rightarrow> byte list \<Rightarrow> py_error + UnpackedLabel" where
  "unpack_labels m data =
     (case bytes_index data 0 of
        Inl e \<Rightarrow> Inl e
      | Inr num_iso \<Rightarrow>
          (case unpack_indices data 1 num_iso [] of
             Inl e \<Rightarrow> Inl e
           | Inr (isos, offset) \<Rightarrow>
               (case unpack_activities m data offset isos Map.empty of
                  Inl e \<Rightarrow> Inl e
                | Inr (acts, offset) \<Rightarrow>
                    (case bytes_index data offset of
                       Inl e \<Rightarrow> Inl e
                     | Inr flags \<Rightarrow>
                         Inr \<lparr> isotopes = isos, activities = acts,
                               normalized = (word_of_nat flags AND (0x01 :: byte) \<noteq> 0),
                               include_k40 = (word_of_nat flags AND (0x02 :: byte) \<noteq> 0),
                               include_radon = (word_of_nat flags AND (0x04 :: byte) \<noteq> 0),
                               include_thorium = (word_of_nat flags AND (0x08 :: byte) \<noteq> 0) \<rparr>))))"

section \<open>Auxiliary definitions for the proofs\<close>

text \<open>The two bytes \<open>struct.pack('<H', v)\<close> produces for an in-range \<open>v\<close>.\<close>

definition H_bytes :: "int \<Rightarrow> byte list" where
  "H_bytes v = [word_of_int v, word_of_int (v div 256)]"

text \<open>
  The dictionary the second loop of \<open>unpack_labels\<close> builds from the decoded names and
  the stored 16-bit values, position by position.
\<close>

fun store_activities ::
  "fpu \<Rightarrow> string list \<Rightarrow> int list \<Rightarrow> (string \<rightharpoonup> double) \<Rightarrow> (string \<rightharpoonup> double)" where
  "store_activities m (n # ns) (v # vs) acts =
     store_activities m ns vs (acts(n \<mapsto> decode_activity m v))"
| "store_activities m _ _ acts = acts"

text \<open>The name a label yields after encoding and decoding one input name.\<close>

definition decoded_name :: "string \<Rightarrow> string" where
  "decoded_name n = (if n \<in> set all_isotopes_names then n else ''K-40'')"

text \<open>The integer \<open>scale_activity\<close> returns when the product is finite.\<close>

definition scaled_of :: "fpu \<Rightarrow> real \<Rightarrow> int" where
  "scaled_of m activity = (case scale_activity m activity of Inl e \<Rightarrow> 0 | Inr v \<Rightarrow> v)"

text \<open>The product \<open>min(activity, 1000.0) * 65.535\<close> the machine computes.\<close>

definition product_of :: "fpu \<Rightarrow> real \<Rightarrow> double" where
  "product_of m a = f_mul m (Fin (min a 1000)) (f_lit m 65.535)"

section \<open>Chain signatures (ground_truth/decay_chains.py)\<close>

text \<open>
  The dataclass \<open>ChainSignature\<close>; its fields \<open>name\<close> and \<open>description\<close> are prefixed
  here, since the detector record already has a field \<open>name\<close>. Python sets of isotope
  names are sets of strings.
\<close>

record ChainSignature =
  sig_name :: string
  parent_chain :: string
  inferred_parent :: string
  required_daughters :: "string set"
  optional_daughters :: "string set"
  sig_description :: string

text \<open>\<open>CHAIN_SIGNATURES\<close>, a dictionary, in the order its keys are registered.\<close>

definition CHAIN_SIGNATURES :: "(string \<times> ChainSignature) list" where
  "CHAIN_SIGNATURES =
     [(''Rn-222_progeny'',
       \<lparr> sig_name = ''Radon-222 Progeny'', parent_chain = ''U-238'',
         inferred_parent = ''Rn-222'',
         required_daughters = {''Pb-214'', ''Bi-214''},
         optional_daughters = {''Po-214''},
         sig_description = ''Pb-214 + Bi-214 indicates airborne Rn-222 (radon) daughters'' \<rparr>),
      (''Ra-226_equilibrium'',
       \<lparr> sig_name = ''Ra-226 Secular Equilibrium'', parent_chain = ''U-238'',
         inferred_parent = ''Ra-226'',
         required_daughters = {''Pb-214'', ''Bi-214''},
         optional_daughters = {''Rn-222'', ''Po-214'', ''Pb-210''},
         sig_description = ''Indicates Ra-226 or U-238 in secular equilibrium'' \<rparr>),
      (''Rn-220_progeny'',
       \<lparr> sig_name = ''Thoron (Rn-220) Progeny'', parent_chain = ''Th-232'',
         inferred_parent = ''Rn-220'',
         required_daughters = {''Pb-212'', ''Bi-212''},
         optional_daughters = {''Tl-208'', ''Po-212''},
         sig_description = ''Pb-212 + Bi-212 indicates Rn-220 (thoron) daughters'' \<rparr>),
      (''Th-232_equilibrium'',
       \<lparr> sig_name = ''Th-232 Secular Equilibrium'', parent_chain = ''Th-232'',
         inferred_parent = ''Th-232'',
         required_daughters = {''Ac-228'', ''Pb-212'', ''Tl-208''},
         optional_daughters = {''Bi-212'', ''Ra-224''},
         sig_description = ''Ac-228 + Pb-212 + Tl-208 indicates Th-232 chain in equilibrium'' \<rparr>),
      (''U-235_direct'',
       \<lparr> sig_name = ''U-235 Direct'', parent_chain = ''U-235'',
         inferred_parent = ''U-235'',
         required_daughters = {''U-235''},
         optional_daughters = {''Th-231'', ''Pa-231''},
         sig_description = ''U-235 directly visible via 185.7 keV line'' \<rparr>)]"

text \<open>
  \<open>list.sort(key=..., reverse=True)\<close>: a stable sort into descending key order. CPython
  reverses the list, sorts it stably into ascending order and reverses the result, so
  that elements with equal keys keep their original order.
\<close>

definition py_sort_reverse :: "('a \<Rightarrow> 'k::linorder) \<Rightarrow> 'a list \<Rightarrow> 'a list" where
  "py_sort_reverse key xs = rev (sort_key key (rev xs))"

text \<open>The loop of \<open>infer_parent_from_daughters\<close> over \<open>CHAIN_SIGNATURES.items()\<close>.\<close>

fun infer_loop ::
  "string set \<Rightarrow> (string \<times> ChainSignature) list \<Rightarrow> (string \<times> ChainSignature \<times> real) list
     \<Rightarrow> (string \<times> ChainSignature \<times> real) list" where
  "infer_loop detected_isotopes [] results = results"
| "infer_loop detected_isotopes ((sig_key, signature) # rest) results =
     (let required_found = detected_isotopes \<inter> required_daughters signature
      in if card required_found > 0 then
           let confidence = real (card required_found) / real (card (required_daughters signature));
               optional_found = detected_isotopes \<inter> optional_daughters signature;
               confidence =
                 (if card (optional_daughters signature) > 0 then
                    let bonus = 0.1 * real (card optional_found)
                                  / real (card (optional_daughters signature))
                    in min 1 (confidence + bonus)
                  else confidence)
           in infer_loop detected_isotopes rest
                (results @ [(inferred_parent signature, signature, confidence)])
         else infer_loop detected_isotopes rest results)"

definition infer_parent_from_daughters ::
  "string set \<Rightarrow> (string \<times> ChainSignature \<times> real) list" where
  "infer_parent_from_daughters detected_isotopes =
     py_sort_reverse (\<lambda>x. snd (snd x)) (infer_loop detected_isotopes CHAIN_SIGNATURES [])"

text \<open>
  The confidence rule in the specification's words: the fraction of required daughters
  detected, plus a tenth of the fraction of optional daughters detected when there are
  optional daughters, capped at 1.
\<close>

definition spec_confidence :: "string set \<Rightarrow> ChainSignature \<Rightarrow> real" where
  "spec_confidence detected s =
     min 1 (real (card (required_daughters s \<inter> detected)) / real (card (required_daughters s))
            + (if optional_daughters s \<noteq> {}
               then 0.1 * (real (card (optional_daughters s \<inter> detected))
                             / real (card (optional_daughters s)))
               else 0))"

text \<open>The entry the specification expects for a matching signature.\<close>

definition spec_entry :: "string set \<Rightarrow> ChainSignature \<Rightarrow> string \<times> ChainSignature \<times> real" where
  "spec_entry detected s = (inferred_parent s, s, spec_confidence detected s)"

text \<open>The matching signatures, in registration order.\<close>

definition spec_matching :: "string set \<Rightarrow> ChainSignature list" where
  "spec_matching detected =
     filter (\<lambda>s. required_daughters s \<inter> detected \<noteq> {}) (map snd CHAIN_SIGNATURES)"

section \<open>Detector efficiency (physics/spectrum_physics.py)\<close>

text \<open>
  \<open>detector_efficiency(energy_kev, detector_config=None)\<close>. The cut-off below which the
  efficiency is zero is the literal 20 of the source. The volume factor is
  \<open>(detector_volume_cm3 / 1.0) ** (1/3)\<close>: for a negative volume Python's power yields
  a complex number, on which the following \<open>min(1.0, volume_factor)\<close> raises
  \<open>TypeError\<close>; for a volume that is zero or positive it is the real cube root.
  The formula is embedded over the real numbers: \<open>np.exp\<close> and the power are the real
  functions, and the result is clipped by \<open>max(0, min(1, eff))\<close> as in the source.
\<close>

definition detector_efficiency :: "real \<Rightarrow> DetectorConfig option \<Rightarrow> py_error + real" where
  "detector_efficiency energy_kev detector_config =
     (let detector_config =
            (case detector_config of None \<Rightarrow> get_default_config | Some c \<Rightarrow> c)
      in if energy_kev < 20 then Inr 0
         else
           let low_eff = 1 - exp (- energy_kev / 50);
               high_eff = exp (- energy_kev / 2000);
               eff = 0.8 * low_eff * high_eff;
               volume = detector_volume_cm3 detector_config / 1
           in if volume < 0 then Inl TypeError
              else
                let volume_factor = volume powr (1 / 3);
                    eff = eff * min 1 volume_factor
                in Inr (max 0 (min 1 eff)))"

section \<open>Normalisation (physics/spectrum_physics.py)\<close>







section \<open>Scenario sampling (generate_spectra_v4.py)\<close>

text \<open>
  A seeded \<open>numpy.random.Generator\<close> has a state of some type \<open>'g\<close>; its methods
  \<open>rng.uniform(low, high)\<close> and \<open>rng.random()\<close> are numpy's, so they are the fields of
  a record: each maps a state to the double it returns and the advanced state.
\<close>

record 'g generator =
  rng_uniform :: "'g \<Rightarrow> double \<Rightarrow> double \<Rightarrow> double \<times> 'g"
  rng_random :: "'g \<Rightarrow> double \<times> 'g"

record IsotopeSource =
  isotope_name :: string
  activity_bq :: double
  include_daughters :: bool
  activity_variation :: real

text \<open>\<open>IsotopeSource(name, activity, include_daughters=d)\<close>; the variation defaults to 0.\<close>

definition mk_IsotopeSource :: "string \<Rightarrow> double \<Rightarrow> bool \<Rightarrow> IsotopeSource" where
  "mk_IsotopeSource n a d =
     \<lparr> isotope_name = n, activity_bq = a, include_daughters = d, activity_variation = 0 \<rparr>"

definition CHERNOBYL_FUKUSHIMA :: "string list" where
  "CHERNOBYL_FUKUSHIMA = [''Cs-137'', ''Cs-134'']"

definition FRESH_FALLOUT :: "string list" where
  "FRESH_FALLOUT = [''I-131'', ''Cs-137'', ''Cs-134'', ''Zr-95'', ''Nb-95'']"

definition get_valid_isotopes :: "string list \<Rightarrow> string list" where
  "get_valid_isotopes isotope_list = filter (\<lambda>n. ISOTOPE_INDEX n \<noteq> None) isotope_list"

definition VALID_FALLOUT :: "string list" where
  "VALID_FALLOUT = get_valid_isotopes (CHERNOBYL_FUKUSHIMA @ FRESH_FALLOUT)"

text \<open>
  \<open>generate_fallout(rng, activity_range)\<close>. The Cs-134 activity is the machine's product
  of the two drawn doubles, and the tests compare doubles: \<open>cs134_activity > 0.5\<close>, and
  \<open>rng.random() < 0.3\<close> against the double the literal \<open>0.3\<close> denotes.
\<close>

definition generate_fallout ::
  "fpu \<Rightarrow> 'g generator \<Rightarrow> 'g \<Rightarrow> real \<times> real \<Rightarrow> IsotopeSource list \<times> 'g" where
  "generate_fallout m R g activity_range =
     (let sources = [];
          (cs137_activity, g) =
             rng_uniform R g (Fin (fst activity_range)) (Fin (snd activity_range));
          (age_factor, g) = rng_uniform R g (f_lit m 0.1) (Fin 1.0);
          cs134_activity = f_mul m cs137_activity age_factor;
          sources = (if ''Cs-137'' \<in> set VALID_FALLOUT
                     then sources @ [mk_IsotopeSource ''Cs-137'' cs137_activity True]
                     else sources);
          sources = (if ''Cs-134'' \<in> set VALID_FALLOUT \<and> d_less (Fin 0.5) cs134_activity
                     then sources @ [mk_IsotopeSource ''Cs-134'' cs134_activity True]
                     else sources);
          (u, g) = rng_random R g
      in if d_less u (f_lit m 0.3) \<and> ''I-131'' \<in> set VALID_FALLOUT
         then (let (i131_activity, g) = rng_uniform R g (Fin 1) (Fin 50)
               in (sources @ [mk_IsotopeSource ''I-131'' i131_activity True], g))
         else (sources, g))"

text \<open>
  A generator for examples: its state is the list of the doubles in \<open>[0, 1)\<close> it will
  deliver, \<open>random\<close> takes the next one and \<open>uniform(low, high)\<close> is
  \<open>low + (high - low) * u\<close> for the next one \<open>u\<close>, computed without rounding. An exhausted
  list delivers \<open>nan\<close>.
\<close>

definition replay_next :: "double list \<Rightarrow> double \<times> double list" where
  "replay_next g = (case g of [] \<Rightarrow> (NaN, []) | u # rest \<Rightarrow> (u, rest))"

definition replay_generator :: "double list generator" where
  "replay_generator =
     \<lparr> rng_uniform = (\<lambda>g low high.
          (x_add low (x_mul (x_sub high low) (fst (replay_next g))), snd (replay_next g))),
       rng_random = replay_next \<rparr>"

section \<open>Properties of the detector calibration\<close>

text \<open>
  The arithmetic without rounding, on finite values.
\<close>

lemma exact_fpu_simps:
  "f_lit exact_fpu x = Fin x"
  "f_of_int exact_fpu n = Fin (real_of_int n)"
  "f_add exact_fpu (Fin a) (Fin b) = Fin (a + b)"
  "f_sub exact_fpu (Fin a) (Fin b) = Fin (a - b)"
  "f_mul exact_fpu (Fin a) (Fin b) = Fin (a * b)"
  "b \<noteq> 0 \<Longrightarrow> f_div exact_fpu (Fin a) (Fin b) = Fin (a / b)"
  by (simp_all add: exact_fpu_def x_sub_def)

lemma preset_cases:
  "(k, c) \<in> set RADIACODE_CONFIGS \<Longrightarrow>
     c = radiacode_101 \<or> c = radiacode_102 \<or> c = radiacode_103 \<or> c = radiacode_103g \<or> c = radiacode_110"
  by (auto simp: RADIACODE_CONFIGS_def)

lemma preset_shape:
  assumes "(k, c) \<in> set RADIACODE_CONFIGS"
  shows "num_channels c = 1024 \<and> skip_first_channel c \<and> energy_max_kev c = 3000
         \<and> (energy_min_kev c = 20 \<or> energy_min_kev c = 25) \<and> 0 \<le> detector_volume_cm3 c"
  using preset_cases[OF assms]
  by (auto simp: radiacode_101_def radiacode_102_def radiacode_103_def radiacode_103g_def
        radiacode_110_def default_DetectorConfig_def)

lemma py_int_Fin_nonneg: "0 \<le> x \<Longrightarrow> py_int (Fin x) = Inr \<lfloor>x\<rfloor>"
  by (simp add: py_int_def)

lemma exact_channel_width:
  assumes "num_channels c \<noteq> 0"
  shows "get_channel_width_kev exact_fpu c =
           Inr (Fin ((energy_max_kev c - energy_min_kev c) / real_of_int (num_channels c)))"
  using assms
  by (simp add: get_channel_width_kev_def py_float_of_int_def py_truediv_def exact_fpu_simps)

lemma get_energy_bins_length:
  assumes "get_channel_width_kev m c = Inr w"
  shows "\<exists>bins. get_energy_bins m c = Inr bins
     \<and> int (length bins) = max 0 (num_channels c - (if skip_first_channel c then 1 else 0))"
  using assms by (auto simp: get_energy_bins_def Let_def)

text \<open>
  Where the machine computes a channel width other than zero and a finite quotient
  \<open>q\<close>, \<open>energy_to_channel\<close> returns \<open>int(q)\<close> (minus one when the first channel is
  skipped), clamped by \<open>max(0, min(max_channel, channel))\<close>.
\<close>

lemma energy_to_channel_clamped:
  assumes w: "get_channel_width_kev m c = Inr w" and w0: "w \<noteq> Fin 0"
    and q: "f_div m (f_sub m (Fin E) (Fin (energy_min_kev c))) w = Fin q"
  shows "energy_to_channel m c E =
           Inr (max 0 (min (if skip_first_channel c then num_channels c - 2 else num_channels c - 1)
                           (if skip_first_channel c then (if 0 \<le> q then \<lfloor>q\<rfloor> else \<lceil>q\<rceil>) - 1
                            else (if 0 \<le> q then \<lfloor>q\<rfloor> else \<lceil>q\<rceil>))))"
  using w w0 q by (simp add: energy_to_channel_def py_truediv_def py_int_def Let_def)

text \<open>
  The other outcomes of \<open>energy_to_channel\<close>: a channel width computed as zero raises
  \<open>ZeroDivisionError\<close> (so does a width that underflows to zero although
  \<open>energy_max_kev\<close> and \<open>energy_min_kev\<close> differ), a quotient that overflows to an
  infinity makes \<open>int()\<close> raise \<open>OverflowError\<close>, and one that is not a number makes it
  raise \<open>ValueError\<close>.
\<close>

lemma energy_to_channel_errors:
  assumes w: "get_channel_width_kev m c = Inr w"
  shows "w = Fin 0 \<Longrightarrow> energy_to_channel m c E = Inl ZeroDivisionError"
    and "w \<noteq> Fin 0 \<Longrightarrow> f_div m (f_sub m (Fin E) (Fin (energy_min_kev c))) w = PInf
           \<Longrightarrow> energy_to_channel m c E = Inl OverflowError"
    and "w \<noteq> Fin 0 \<Longrightarrow> f_div m (f_sub m (Fin E) (Fin (energy_min_kev c))) w = NInf
           \<Longrightarrow> energy_to_channel m c E = Inl OverflowError"
    and "w \<noteq> Fin 0 \<Longrightarrow> f_div m (f_sub m (Fin E) (Fin (energy_min_kev c))) w = NaN
           \<Longrightarrow> energy_to_channel m c E = Inl ValueError"
  using w by (simp_all add: energy_to_channel_def py_truediv_def py_int_def)

lemma round_trip_general:
  assumes N: "0 < num_channels c" and mm: "energy_min_kev c < energy_max_kev c"
    and lo: "energy_min_kev c \<le> E" and hi: "E \<le> energy_max_kev c"
  shows "\<exists>w E'. get_channel_width_kev exact_fpu c = Inr (Fin w)
          \<and> calibration_round_trip exact_fpu c E = Inr (Fin E') \<and> 0 < w
          \<and> (\<bar>E' - E\<bar> < w \<longleftrightarrow>
               \<not> (skip_first_channel c \<and> 2 \<le> num_channels c \<and> E \<le> energy_min_kev c + w / 2))
          \<and> \<bar>E' - E\<bar> \<le> 3 / 2 * w"
proof -
  define n where "n = num_channels c"
  define w where "w = (energy_max_kev c - energy_min_kev c) / real_of_int n"
  define q where "q = (E - energy_min_kev c) / w"
  define r where "r = \<lfloor>q\<rfloor>"
  have npos: "0 < real_of_int n" using N by (simp add: n_def)
  have wpos: "0 < w" using mm npos by (simp add: w_def)
  have cw: "get_channel_width_kev exact_fpu c = Inr (Fin w)"
    using N exact_channel_width[of c] by (simp add: w_def n_def)
  have q0: "0 \<le> q" using lo wpos by (simp add: q_def)
  have "E - energy_min_kev c \<le> real_of_int n * w" using hi npos by (simp add: w_def)
  then have qn: "q \<le> real_of_int n" using wpos by (simp add: q_def pos_divide_le_eq)
  have Eq: "E = energy_min_kev c + q * w" using wpos by (simp add: q_def)
  have r1: "real_of_int r \<le> q" and r2: "q < real_of_int r + 1" by (simp_all add: r_def)
  have r0: "0 \<le> r" using q0 by (simp add: r_def)
  have rn: "r \<le> n" using qn r1 by linarith
  define ch where "ch = max 0 (min (if skip_first_channel c then n - 2 else n - 1)
                              (if skip_first_channel c then r - 1 else r))"
  have qq: "f_div exact_fpu (f_sub exact_fpu (Fin E) (Fin (energy_min_kev c))) (Fin w) = Fin q"
    using wpos by (simp add: exact_fpu_simps q_def)
  have w0: "Fin w \<noteq> Fin 0" using wpos by simp
  have e2c: "energy_to_channel exact_fpu c E = Inr ch"
    using energy_to_channel_clamped[OF cw w0 qq] q0 by (simp add: ch_def r_def n_def)
  define r' where "r' = max 0 (min (n - 1) (ch + (if skip_first_channel c then 1 else 0)))"
  define E' where "E' = energy_min_kev c + (real_of_int r' + 0.5) * w"
  have rt: "calibration_round_trip exact_fpu c E = Inr (Fin E')"
    using cw e2c by (simp add: calibration_round_trip_def channel_to_energy_def Let_def
        py_float_of_int_def exact_fpu_simps E'_def r'_def n_def)
  have diff: "E' - E = (real_of_int r' + 0.5 - q) * w"
    by (simp add: E'_def Eq algebra_simps)
  have absd: "\<bar>E' - E\<bar> = \<bar>real_of_int r' + 0.5 - q\<bar> * w"
    using wpos by (simp add: diff abs_mult)
  have lt: "\<bar>E' - E\<bar> < w \<longleftrightarrow> \<bar>real_of_int r' + 0.5 - q\<bar> < 1"
    using wpos by (simp add: absd)
  have half: "E \<le> energy_min_kev c + w / 2 \<longleftrightarrow> q \<le> 1 / 2"
    using wpos by (simp add: Eq) 
  have le: "\<bar>E' - E\<bar> \<le> 3 / 2 * w \<longleftrightarrow> \<bar>real_of_int r' + 0.5 - q\<bar> \<le> 3 / 2"
    using wpos by (simp add: absd)
  have main: "(\<bar>real_of_int r' + 0.5 - q\<bar> < 1 \<longleftrightarrow>
     \<not> (skip_first_channel c \<and> 2 \<le> n \<and> q \<le> 1 / 2)) \<and> \<bar>real_of_int r' + 0.5 - q\<bar> \<le> 3 / 2"
  proof (cases "skip_first_channel c")
    case True
    have n1: "1 \<le> n" using N by (simp add: n_def)
    consider "n = 1" | "2 \<le> n" "r = 0" | "2 \<le> n" "1 \<le> r" "r \<le> n - 1" | "2 \<le> n" "r = n"
      using n1 r0 rn by linarith
    then show ?thesis
    proof cases
      case 1
      then have "r' = 0" using True by (simp add: r'_def ch_def)
      then show ?thesis using 1 q0 qn r1 r2 by (auto simp: abs_if)
    next
      case 2
      then have "r' = 1" using True by (simp add: r'_def ch_def)
      then show ?thesis using 2 True q0 r1 r2 by (auto simp: abs_if)
    next
      case 3
      then have "r' = r" using True by (simp add: r'_def ch_def)
      then show ?thesis using 3 True r1 r2 by (auto simp: abs_if)
    next
      case 4
      then have "r' = n - 1" using True by (simp add: r'_def ch_def)
      then show ?thesis using 4 True r1 r2 qn by (auto simp: abs_if)
    qed
  next
    case False
    have n1: "1 \<le> n" using N by (simp add: n_def)
    consider "r \<le> n - 1" | "r = n" using rn by linarith
    then show ?thesis
    proof cases
      case 1
      then have "r' = r" using False r0 by (simp add: r'_def ch_def)
      then show ?thesis using False r1 r2 by (auto simp: abs_if)
    next
      case 2
      then have "r' = n - 1" using False n1 by (simp add: r'_def ch_def)
      then show ?thesis using 2 False r1 r2 qn by (auto simp: abs_if)
    qed
  qed
  show ?thesis using cw rt wpos lt le half main by (auto simp: n_def)
qed

lemma map_of_presets:
  "map_of RADIACODE_CONFIGS k = Some c \<Longrightarrow> (k, c) \<in> set RADIACODE_CONFIGS"
  by (rule map_of_SomeD)

text \<open>
  Claim C3, as amended. For every detector preset and every energy \<open>E\<close> of the configured
  range, \<open>channel_to_energy(energy_to_channel(E))\<close> returns an energy, and it differs from
  \<open>E\<close> by less than one channel width exactly when \<open>E\<close> lies more than half a channel
  width above \<open>energy_min_kev\<close>. Below that, \<open>E\<close> falls into the skipped raw channel 0
  and is clamped to the first usable channel; the difference never exceeds one and a
  half channel widths. The statement is about the arithmetic without rounding
  (\<open>exact_fpu\<close>): the bounds are those of the calibration formulas.
\<close>

theorem C3_calibration_round_trip:
  assumes preset: "map_of RADIACODE_CONFIGS k = Some c"
    and lo: "energy_min_kev c \<le> E" and hi: "E \<le> energy_max_kev c"
  shows "\<exists>w E'. get_channel_width_kev exact_fpu c = Inr (Fin w)
           \<and> calibration_round_trip exact_fpu c E = Inr (Fin E')
           \<and> (\<bar>E' - E\<bar> < w \<longleftrightarrow> energy_min_kev c + w / 2 < E)
           \<and> \<bar>E' - E\<bar> \<le> 3 / 2 * w"
proof -
  have sh: "num_channels c = 1024" "skip_first_channel c" "energy_max_kev c = 3000"
    "energy_min_kev c = 20 \<or> energy_min_kev c = 25"
    using preset_shape[OF map_of_presets[OF preset]] by simp_all
  have N: "0 < num_channels c" and mm: "energy_min_kev c < energy_max_kev c"
    using sh by auto
  from round_trip_general[OF N mm lo hi] obtain w E' where
    r: "get_channel_width_kev exact_fpu c = Inr (Fin w)"
       "calibration_round_trip exact_fpu c E = Inr (Fin E')"
       "(\<bar>E' - E\<bar> < w) = (\<not> (skip_first_channel c \<and> 2 \<le> num_channels c \<and> E \<le> energy_min_kev c + w / 2))"
       "\<bar>E' - E\<bar> \<le> 3 / 2 * w"
    by blast
  have "(\<bar>E' - E\<bar> < w) = (energy_min_kev c + w / 2 < E)"
    using r(3) sh(1,2) by auto
  then show ?thesis using r by blast
qed

text \<open>
  The theorem at the preset \<open>radiacode_103\<close> and the Cs-137 reference energy.
\<close>

theorem C3_calibration_round_trip_witness:
  "map_of RADIACODE_CONFIGS ''radiacode_103'' = Some radiacode_103
   \<and> energy_min_kev radiacode_103 \<le> 662 \<and> 662 \<le> energy_max_kev radiacode_103
   \<and> get_channel_width_kev exact_fpu radiacode_103 = Inr (Fin (745 / 256))
   \<and> (\<exists>E'. calibration_round_trip exact_fpu radiacode_103 662 = Inr (Fin E')
          \<and> \<bar>E' - 662\<bar> < 745 / 256)"
proof -
  have h1: "map_of RADIACODE_CONFIGS ''radiacode_103'' = Some radiacode_103"
    by (simp add: RADIACODE_CONFIGS_def)
  have h2: "energy_min_kev radiacode_103 \<le> 662" and h3: "662 \<le> energy_max_kev radiacode_103"
    by (simp_all add: radiacode_103_def default_DetectorConfig_def)
  have w: "get_channel_width_kev exact_fpu radiacode_103 = Inr (Fin (745 / 256))"
    by (simp add: exact_channel_width radiacode_103_def default_DetectorConfig_def)
  obtain w' E' where r: "get_channel_width_kev exact_fpu radiacode_103 = Inr (Fin w')"
      "calibration_round_trip exact_fpu radiacode_103 662 = Inr (Fin E')"
      "(\<bar>E' - 662\<bar> < w') = (energy_min_kev radiacode_103 + w' / 2 < 662)"
    using C3_calibration_round_trip[OF h1 h2 h3] by blast
  have w': "w' = 745 / 256" using r(1) w by simp
  have "energy_min_kev radiacode_103 + w' / 2 < 662"
    unfolding w' by (simp add: radiacode_103_def default_DetectorConfig_def)
  then have "\<bar>E' - 662\<bar> < 745 / 256" using r(3) w' by simp
  then show ?thesis using h1 h2 h3 w r(2) by blast
qed

text \<open>
  Claim C3 as stated fails at the lower end of the range: for \<open>radiacode_103\<close> the energy
  20 keV maps to usable channel 0, whose center is 24.365234375 keV, one and a half
  channel widths (of 2.91015625 keV) away. Every value of this computation is a binary
  fraction, so no operation rounds.
\<close>

theorem C3_round_trip_counterexample:
  "map_of RADIACODE_CONFIGS ''radiacode_103'' = Some radiacode_103
   \<and> energy_min_kev radiacode_103 \<le> 20 \<and> 20 \<le> energy_max_kev radiacode_103
   \<and> get_channel_width_kev exact_fpu radiacode_103 = Inr (Fin 2.91015625)
   \<and> energy_to_channel exact_fpu radiacode_103 20 = Inr 0
   \<and> calibration_round_trip exact_fpu radiacode_103 20 = Inr (Fin 24.365234375)
   \<and> \<not> \<bar>24.365234375 - 20\<bar> < (2.91015625 :: real)"
  by (simp add: RADIACODE_CONFIGS_def calibration_round_trip_def energy_to_channel_def
      channel_to_energy_def get_channel_width_kev_def py_truediv_def py_int_def
      py_float_of_int_def exact_fpu_simps
      radiacode_103_def default_DetectorConfig_def Let_def)

text \<open>
  Claim C10, as amended. For every machine arithmetic, every detector configuration
  with at least one usable channel (\<open>num_channels \<ge> 2\<close> when \<open>skip_first_channel\<close> is
  set, \<open>num_channels \<ge> 1\<close> otherwise) whose computed channel width is not zero, and
  every energy, inside the range or not, for which the computed quotient
  \<open>(energy_kev - energy_min_kev) / channel_width\<close> is finite, \<open>energy_to_channel\<close>
  returns an index between 0 and \<open>num_channels - 2\<close> (respectively \<open>num_channels - 1\<close>),
  which is a valid index into the array of usable channels \<open>get_energy_bins\<close> returns.
  Outside these hypotheses the function raises (\<open>energy_to_channel_errors\<close>) or has no
  usable channel to return.
\<close>

theorem C10_energy_to_channel_in_bounds:
  assumes n: "(if skip_first_channel c then 2 else 1) \<le> num_channels c"
    and w: "get_channel_width_kev m c = Inr w" and w0: "w \<noteq> Fin 0"
    and q: "f_div m (f_sub m (Fin E) (Fin (energy_min_kev c))) w = Fin q"
  shows "\<exists>ch bins. energy_to_channel m c E = Inr ch \<and> 0 \<le> ch
           \<and> ch \<le> (if skip_first_channel c then num_channels c - 2 else num_channels c - 1)
           \<and> get_energy_bins m c = Inr bins \<and> ch < int (length bins)"
proof -
  define ch where "ch = max 0 (min (if skip_first_channel c then num_channels c - 2 else num_channels c - 1)
                           (if skip_first_channel c then (if 0 \<le> q then \<lfloor>q\<rfloor> else \<lceil>q\<rceil>) - 1
                            else (if 0 \<le> q then \<lfloor>q\<rfloor> else \<lceil>q\<rceil>)))"
  have e: "energy_to_channel m c E = Inr ch"
    unfolding ch_def by (rule energy_to_channel_clamped[OF w w0 q])
  have b0: "0 \<le> ch" by (simp add: ch_def)
  have b1: "ch \<le> (if skip_first_channel c then num_channels c - 2 else num_channels c - 1)"
    using n by (auto simp: ch_def split: if_splits)
  obtain bins where b: "get_energy_bins m c = Inr bins"
      "int (length bins) = max 0 (num_channels c - (if skip_first_channel c then 1 else 0))"
    using get_energy_bins_length[OF w] by blast
  have "ch < int (length bins)" using b1 b(2) n by (auto split: if_splits)
  then show ?thesis using e b0 b1 b(1) by blast
qed

text \<open>
  The theorem at \<open>radiacode_103g\<close> and 5000 keV, far above the energy range, in the
  arithmetic without rounding.
\<close>

theorem C10_energy_to_channel_in_bounds_witness:
  "(if skip_first_channel radiacode_103g then 2 else 1) \<le> num_channels radiacode_103g
   \<and> get_channel_width_kev exact_fpu radiacode_103g = Inr (Fin (2975 / 1024))
   \<and> Fin (2975 / 1024) \<noteq> Fin 0
   \<and> f_div exact_fpu (f_sub exact_fpu (Fin 5000) (Fin (energy_min_kev radiacode_103g)))
         (Fin (2975 / 1024)) = Fin (203776 / 119)
   \<and> energy_to_channel exact_fpu radiacode_103g 5000 = Inr 1022
   \<and> (\<exists>bins. get_energy_bins exact_fpu radiacode_103g = Inr bins \<and> 1022 < int (length bins))"
proof -
  have h1: "(if skip_first_channel radiacode_103g then 2 else 1) \<le> num_channels radiacode_103g"
    by (simp add: radiacode_103g_def default_DetectorConfig_def)
  have h2: "get_channel_width_kev exact_fpu radiacode_103g = Inr (Fin (2975 / 1024))"
    by (simp add: exact_channel_width radiacode_103g_def default_DetectorConfig_def)
  have h3: "Fin (2975 / 1024) \<noteq> Fin 0" by simp
  have h4: "f_div exact_fpu (f_sub exact_fpu (Fin 5000) (Fin (energy_min_kev radiacode_103g)))
         (Fin (2975 / 1024)) = Fin (203776 / 119)"
    by (simp add: exact_fpu_simps radiacode_103g_def default_DetectorConfig_def)
  have e: "energy_to_channel exact_fpu radiacode_103g 5000 = Inr 1022"
    using energy_to_channel_clamped[OF h2 h3 h4]
    by (simp add: radiacode_103g_def default_DetectorConfig_def)
  obtain ch bins where r: "energy_to_channel exact_fpu radiacode_103g 5000 = Inr ch"
      "get_energy_bins exact_fpu radiacode_103g = Inr bins" "ch < int (length bins)"
    using C10_energy_to_channel_in_bounds[OF h1 h2 h3 h4] by blast
  have "ch = 1022" using r(1) e by simp
  then have "\<exists>bins. get_energy_bins exact_fpu radiacode_103g = Inr bins \<and> 1022 < int (length bins)"
    using r(2,3) by blast
  with h1 h2 h3 h4 e show ?thesis by (intro conjI)
qed

text \<open>
  Claim C10 as stated fails for a configuration with a single raw channel and
  \<open>skip_first_channel\<close> set: there is no usable channel, \<open>num_channels - 2\<close> is negative,
  and the function still returns index 0.
\<close>

theorem C10_single_channel_counterexample:
  "energy_to_channel exact_fpu ((default_DetectorConfig ''single'')\<lparr>num_channels := 1\<rparr>) 100 = Inr 0
   \<and> skip_first_channel ((default_DetectorConfig ''single'')\<lparr>num_channels := 1\<rparr>)
   \<and> \<not> (0 :: int) \<le> num_channels ((default_DetectorConfig ''single'')\<lparr>num_channels := 1\<rparr>) - 2
   \<and> get_energy_bins exact_fpu ((default_DetectorConfig ''single'')\<lparr>num_channels := 1\<rparr>) = Inr []"
  by (simp add: energy_to_channel_def get_energy_bins_def get_channel_width_kev_def py_truediv_def
      py_int_def py_float_of_int_def exact_fpu_simps default_DetectorConfig_def Let_def)

section \<open>Properties of the label codec\<close>

text \<open>
  The master index: the dictionary comprehensions over the enumerated name list.
\<close>

lemma fold_upd_map_of:
  "fold (\<lambda>(k, v) m. m(k \<mapsto> v)) kvs m = m ++ map_of (rev kvs)"
  by (induction kvs arbitrary: m) (auto simp: map_add_def fun_eq_iff split: option.splits)

lemma dict_comprehension_map_of: "dict_comprehension kvs = map_of (rev kvs)"
  by (simp add: dict_comprehension_def fold_upd_map_of)

lemma dict_comprehension_distinct:
  "distinct (map fst kvs) \<Longrightarrow> dict_comprehension kvs = map_of kvs"
  unfolding dict_comprehension_map_of
  by (rule map_of_inject_set[THEN iffD2]) (auto simp: rev_map[symmetric])

lemma dict_enumerate:
  "dict_comprehension (enumerate 0 xs) i = (if i < length xs then Some (xs ! i) else None)"
proof -
  have d: "distinct (map fst (enumerate 0 xs))" by simp
  show ?thesis
  proof (cases "i < length xs")
    case True
    have "map_of (zip [0..<length xs] xs) ([0..<length xs] ! i) = Some (xs ! i)"
      using True by (intro map_of_zip_nth) simp_all
    then show ?thesis
      using True unfolding dict_comprehension_distinct[OF d] by (simp add: enumerate_eq_zip)
  next
    case False
    then have "i \<notin> fst ` set (zip [0..<length xs] xs)"
      by (auto dest: set_zip_leftD)
    then have "map_of (zip [0..<length xs] xs) i = None"
      using map_of_eq_None_iff by metis
    then show ?thesis
      using False unfolding dict_comprehension_distinct[OF d] by (simp add: enumerate_eq_zip)
  qed
qed

lemma dict_index_Some:
  assumes "distinct xs" "i < length xs"
  shows "dict_comprehension (map (\<lambda>(i, n). (n, i)) (enumerate 0 xs)) (xs ! i) = Some i"
proof -
  have m: "map fst (map (\<lambda>(i, n). (n, i)) (enumerate 0 xs)) = xs"
    by (simp add: enumerate_eq_zip map_snd_zip comp_def case_prod_unfold)
  have d: "distinct (map fst (map (\<lambda>(i, n). (n, i)) (enumerate 0 xs)))"
    using assms(1) unfolding m .
  have "(xs ! i, i) \<in> set (map (\<lambda>(i, n). (n, i)) (enumerate 0 xs))"
    using assms(2) by (force simp: enumerate_eq_zip in_set_zip)
  then show ?thesis
    unfolding dict_comprehension_distinct[OF d] using d by (simp only: map_of_is_SomeI) 
qed

lemma dict_index_None:
  assumes "n \<notin> set xs"
  shows "dict_comprehension (map (\<lambda>(i, n). (n, i)) (enumerate 0 xs)) n = None"
proof -
  have m: "map fst (map (\<lambda>(i, n). (n, i)) (enumerate 0 xs)) = xs"
    by (simp add: enumerate_eq_zip map_snd_zip comp_def case_prod_unfold)
  have "n \<notin> fst ` set (rev (map (\<lambda>(i, n). (n, i)) (enumerate 0 xs)))"
    using assms m by (metis set_map set_rev)
  then show ?thesis
    unfolding dict_comprehension_map_of by (simp only: map_of_eq_None_iff[symmetric])
qed

lemma NUM_ISOTOPES_72: "NUM_ISOTOPES = 72"
  by (simp add: NUM_ISOTOPES_def all_isotopes_names_def get_all_isotopes_def ISOTOPE_DATABASE_def)

lemma distinct_names: "distinct all_isotopes_names"
  unfolding all_isotopes_names_def get_all_isotopes_def ISOTOPE_DATABASE_def
  by simp

lemma H_round: "0 \<le> v \<Longrightarrow> v \<le> 65535 \<Longrightarrow>
   struct_unpack_H [word_of_int v, word_of_int (v div 256)] = Inr v"
  by (simp add: struct_unpack_H_def uint_word_of_int take_bit_eq_mod)

lemma ISOTOPE_INDEX_member:
  assumes "n \<in> set all_isotopes_names"
  shows "\<exists>i. ISOTOPE_INDEX n = Some i \<and> i < NUM_ISOTOPES \<and> all_isotopes_names ! i = n"
proof -
  obtain i where i: "i < length all_isotopes_names" "all_isotopes_names ! i = n"
    using assms by (auto simp: in_set_conv_nth)
  have "ISOTOPE_INDEX (all_isotopes_names ! i) = Some i"
    unfolding ISOTOPE_INDEX_def using distinct_names i(1) by (rule dict_index_Some)
  then show ?thesis using i by (auto simp: NUM_ISOTOPES_def)
qed

lemma ISOTOPE_INDEX_absent:
  "n \<notin> set all_isotopes_names \<Longrightarrow> ISOTOPE_INDEX n = None"
  unfolding ISOTOPE_INDEX_def by (rule dict_index_None)

lemma INDEX_TO_ISOTOPE_eq:
  "INDEX_TO_ISOTOPE i = (if i < NUM_ISOTOPES then Some (all_isotopes_names ! i) else None)"
  by (simp add: INDEX_TO_ISOTOPE_def NUM_ISOTOPES_def dict_enumerate)

lemma index_lt_256: "dict_get ISOTOPE_INDEX n 0 < 256"
proof (cases "n \<in> set all_isotopes_names")
  case True
  then show ?thesis using ISOTOPE_INDEX_member[OF True] NUM_ISOTOPES_72
    by (auto simp: dict_get_def)
next
  case False
  then show ?thesis by (simp add: dict_get_def ISOTOPE_INDEX_absent)
qed

lemma names_0: "all_isotopes_names ! 0 = ''K-40''"
  by (simp add: all_isotopes_names_def get_all_isotopes_def ISOTOPE_DATABASE_def)

lemma decode_name:
  "dict_get INDEX_TO_ISOTOPE (dict_get ISOTOPE_INDEX n 0) d =
     (if n \<in> set all_isotopes_names then n else ''K-40'')"
proof (cases "n \<in> set all_isotopes_names")
  case True
  then show ?thesis using ISOTOPE_INDEX_member[OF True]
    by (auto simp: dict_get_def INDEX_TO_ISOTOPE_eq)
next
  case False
  then show ?thesis
    by (simp add: dict_get_def ISOTOPE_INDEX_absent INDEX_TO_ISOTOPE_eq NUM_ISOTOPES_72 names_0)
qed
lemma dom_ISOTOPE_INDEX: "dom ISOTOPE_INDEX = set all_isotopes_names"
proof (rule set_eqI)
  fix n show "n \<in> dom ISOTOPE_INDEX \<longleftrightarrow> n \<in> set all_isotopes_names"
    using ISOTOPE_INDEX_member[of n] ISOTOPE_INDEX_absent[of n] by (cases "n \<in> set all_isotopes_names") auto
qed
lemma ISOTOPE_INDEX_Cs137: "ISOTOPE_INDEX ''Cs-137'' = Some 30"
  by (simp add: ISOTOPE_INDEX_def dict_comprehension_def all_isotopes_names_def
      get_all_isotopes_def ISOTOPE_DATABASE_def enumerate_eq_zip)

lemma ISOTOPE_INDEX_Ba137m: "ISOTOPE_INDEX ''Ba-137m'' = Some 31"
  by (simp add: ISOTOPE_INDEX_def dict_comprehension_def all_isotopes_names_def
      get_all_isotopes_def ISOTOPE_DATABASE_def enumerate_eq_zip)
lemma decoded_in_master: "decoded_name n \<in> set all_isotopes_names"
proof -
  have "''K-40'' \<in> set all_isotopes_names"
    using names_0 NUM_ISOTOPES_72 by (metis NUM_ISOTOPES_def nth_mem zero_less_numeral)
  then show ?thesis by (simp add: decoded_name_def)
qed

lemma INDEX_TO_ISOTOPE_0: "INDEX_TO_ISOTOPE 0 = Some ''K-40''"
  by (simp add: INDEX_TO_ISOTOPE_eq NUM_ISOTOPES_72 names_0)
lemma ISOTOPE_INDEX_Zr95: "ISOTOPE_INDEX ''Zr-95'' = None"
  by (simp add: ISOTOPE_INDEX_def dict_comprehension_def all_isotopes_names_def
      get_all_isotopes_def ISOTOPE_DATABASE_def enumerate_eq_zip)

text \<open>
  The bytes \<open>pack_labels\<close> writes, and what \<open>unpack_labels\<close> reads from them, for every
  machine arithmetic in which the scaled activities are finite.
\<close>

lemma pack_indices_eq:
  "pack_indices data isos =
     Inr (data @ map (\<lambda>n. word_of_nat (dict_get ISOTOPE_INDEX n 0)) isos)"
proof (induction isos arbitrary: data)
  case Nil
  then show ?case by simp
next
  case (Cons n isos)
  have "bytearray_append data (int (dict_get ISOTOPE_INDEX n 0)) =
          Inr (data @ [word_of_nat (dict_get ISOTOPE_INDEX n 0)])"
    using index_lt_256[of n] by (simp add: bytearray_append_def)
  then show ?case by (simp add: Cons.IH Let_def)
qed

lemma scale_activity_Fin:
  assumes "product_of m a = Fin p"
  shows "scale_activity m a = Inr (max 0 (min 65535 (if 0 \<le> p then \<lfloor>p\<rfloor> else \<lceil>p\<rceil>)))"
  using assms by (simp add: scale_activity_def product_of_def py_int_def)

lemma scaled_of_range:
  assumes "product_of m a = Fin p"
  shows "scale_activity m a = Inr (scaled_of m a)" "0 \<le> scaled_of m a" "scaled_of m a \<le> 65535"
  using scale_activity_Fin[OF assms] by (simp_all add: scaled_of_def)

lemma pack_activities_eq:
  assumes "\<forall>n \<in> set isos. \<exists>p. product_of m (dict_get acts n 0) = Fin p"
  shows "pack_activities m data isos acts =
     Inr (data @ concat (map (\<lambda>n. H_bytes (scaled_of m (dict_get acts n 0))) isos))"
  using assms
proof (induction isos arbitrary: data)
  case Nil
  then show ?case by simp
next
  case (Cons n isos)
  obtain p where p: "product_of m (dict_get acts n 0) = Fin p" using Cons.prems by auto
  have s: "scale_activity m (dict_get acts n 0) = Inr (scaled_of m (dict_get acts n 0))"
    and r: "0 \<le> scaled_of m (dict_get acts n 0)" "scaled_of m (dict_get acts n 0) \<le> 65535"
    using scaled_of_range[OF p] by simp_all
  have h: "struct_pack_H (scaled_of m (dict_get acts n 0)) =
          Inr (H_bytes (scaled_of m (dict_get acts n 0)))"
    using r by (simp add: struct_pack_H_def H_bytes_def)
  have IH: "\<And>data. pack_activities m data isos acts =
     Inr (data @ concat (map (\<lambda>n. H_bytes (scaled_of m (dict_get acts n 0))) isos))"
    using Cons.prems by (intro Cons.IH) simp
  show ?case by (simp add: s h IH Let_def)
qed

lemma pack_labels_eq:
  assumes "\<forall>n \<in> set (take 255 isos). \<exists>p. product_of m (dict_get acts n 0) = Fin p"
  shows "pack_labels m isos acts flags =
     Inr ([word_of_nat (min (length isos) 255)]
          @ map (\<lambda>n. word_of_nat (dict_get ISOTOPE_INDEX n 0)) (take 255 isos)
          @ concat (map (\<lambda>n. H_bytes (scaled_of m (dict_get acts n 0))) (take 255 isos))
          @ [pack_flag_byte flags])"
  by (simp add: pack_labels_def bytearray_append_def pack_indices_eq
      pack_activities_eq[OF assms] Let_def)

lemma bytes_index_mid: "bytes_index (pre @ b # post) (length pre) = Inr (unat b)"
  by (simp add: bytes_index_def)

lemma unpack_indices_eq:
  "unpack_indices (pre @ bs @ post) (length pre) (length bs) acc =
     Inr (acc @ map (\<lambda>b. dict_get INDEX_TO_ISOTOPE (unat b) (''Unknown-'' @ str_of_nat (unat b))) bs,
          length pre + length bs)"
proof (induction bs arbitrary: pre acc)
  case Nil
  then show ?case by simp
next
  case (Cons b bs)
  have "unpack_indices ((pre @ [b]) @ bs @ post) (length (pre @ [b])) (length bs)
          (acc @ [dict_get INDEX_TO_ISOTOPE (unat b) (''Unknown-'' @ str_of_nat (unat b))]) =
        Inr ((acc @ [dict_get INDEX_TO_ISOTOPE (unat b) (''Unknown-'' @ str_of_nat (unat b))])
              @ map (\<lambda>b. dict_get INDEX_TO_ISOTOPE (unat b) (''Unknown-'' @ str_of_nat (unat b))) bs,
             length (pre @ [b]) + length bs)"
    by (rule Cons.IH)
  then show ?case using bytes_index_mid[of pre b "bs @ post"] by simp
qed

lemma H_bytes_unpack: "0 \<le> v \<Longrightarrow> v \<le> 65535 \<Longrightarrow> struct_unpack_H (H_bytes v) = Inr v"
  unfolding H_bytes_def by (rule H_round)

lemma unpack_activities_eq:
  assumes "length names = length vs" "\<forall>v \<in> set vs. 0 \<le> v \<and> v \<le> 65535"
  shows "unpack_activities m (pre @ concat (map H_bytes vs) @ post) (length pre) names acc =
     Inr (store_activities m names vs acc, length pre + 2 * length vs)"
  using assms
proof (induction names vs arbitrary: pre acc rule: list_induct2)
  case Nil
  then show ?case by simp
next
  case (Cons n names v vs)
  have len: "length (H_bytes v) = 2" by (simp add: H_bytes_def)
  have tk: "take 2 (drop (length pre) (pre @ concat (map H_bytes (v # vs)) @ post)) = H_bytes v"
    using len by simp
  have v: "struct_unpack_H (H_bytes v) = Inr v"
    using Cons.prems by (intro H_bytes_unpack) simp_all
  have "unpack_activities m ((pre @ H_bytes v) @ concat (map H_bytes vs) @ post)
           (length (pre @ H_bytes v)) names (acc(n \<mapsto> decode_activity m v)) =
        Inr (store_activities m names vs (acc(n \<mapsto> decode_activity m v)),
             length (pre @ H_bytes v) + 2 * length vs)"
    using Cons.prems by (intro Cons.IH) simp
  then show ?case using tk v len by simp
qed

lemma store_activities_same:
  "store_activities m names (map g names) acc =
     (\<lambda>x. if x \<in> set names then Some (decode_activity m (g x)) else acc x)"
proof (induction names arbitrary: acc)
  case Nil
  then show ?case by simp
next
  case (Cons n names)
  have "store_activities m names (map g names) (acc(n \<mapsto> decode_activity m (g n))) =
     (\<lambda>x. if x \<in> set names then Some (decode_activity m (g x))
          else (acc(n \<mapsto> decode_activity m (g n))) x)"
    by (rule Cons.IH)
  also have "\<dots> = (\<lambda>x. if x \<in> set (n # names) then Some (decode_activity m (g x)) else acc x)"
    by (auto simp: fun_eq_iff)
  finally show ?case by simp
qed

lemma flag_bits:
  "(pack_flag_byte flags AND 0x01 \<noteq> 0) = dict_get flags ''normalized'' True"
  "(pack_flag_byte flags AND 0x02 \<noteq> 0) = dict_get flags ''include_k40'' True"
  "(pack_flag_byte flags AND 0x04 \<noteq> 0) = dict_get flags ''include_radon'' True"
  "(pack_flag_byte flags AND 0x08 \<noteq> 0) = dict_get flags ''include_thorium'' True"
  by (cases "dict_get flags ''normalized'' True"; cases "dict_get flags ''include_k40'' True";
      cases "dict_get flags ''include_radon'' True"; cases "dict_get flags ''include_thorium'' True";
      simp add: pack_flag_byte_def)+

lemma unat_idx_byte: "unat (word_of_nat (dict_get ISOTOPE_INDEX n 0) :: byte) = dict_get ISOTOPE_INDEX n 0"
  using index_lt_256[of n] by (simp add: unat_of_nat)

lemma unpack_pack_labels:
  fixes isos acts flags
  defines "isos' \<equiv> take 255 isos"
  assumes fin: "\<forall>n \<in> set (take 255 isos). \<exists>p. product_of m (dict_get acts n 0) = Fin p"
  shows "\<exists>bytes. pack_labels m isos acts flags = Inr bytes \<and>
     unpack_labels m bytes =
       Inr \<lparr> isotopes = map decoded_name isos',
             activities = store_activities m (map decoded_name isos')
                            (map (\<lambda>n. scaled_of m (dict_get acts n 0)) isos') Map.empty,
             normalized = dict_get flags ''normalized'' True,
             include_k40 = dict_get flags ''include_k40'' True,
             include_radon = dict_get flags ''include_radon'' True,
             include_thorium = dict_get flags ''include_thorium'' True \<rparr>"
proof -
  define k where "k = min (length isos) 255"
  define cnt :: byte where "cnt = word_of_nat k"
  define idxs :: "byte list" where "idxs = map (\<lambda>n. word_of_nat (dict_get ISOTOPE_INDEX n 0)) isos'"
  define vs where "vs = map (\<lambda>n. scaled_of m (dict_get acts n 0)) isos'"
  define fb where "fb = pack_flag_byte flags"
  define bytes where "bytes = [cnt] @ idxs @ concat (map H_bytes vs) @ [fb]"
  have klen: "length isos' = k" by (simp add: isos'_def k_def)
  have ilen: "length idxs = k" by (simp add: idxs_def klen)
  have vlen: "length vs = k" by (simp add: vs_def klen)
  have pk: "pack_labels m isos acts flags = Inr bytes"
    by (simp add: pack_labels_eq[OF fin] bytes_def cnt_def idxs_def vs_def fb_def k_def
        isos'_def comp_def)
  have ucnt: "unat cnt = k" by (simp add: cnt_def k_def unat_of_nat)
  have b0: "bytes_index bytes 0 = Inr k"
    using bytes_index_mid[of "[]" cnt "idxs @ concat (map H_bytes vs) @ [fb]"] ucnt
    by (simp add: bytes_def)
  have dec: "map (\<lambda>b. dict_get INDEX_TO_ISOTOPE (unat b) (''Unknown-'' @ str_of_nat (unat b))) idxs
               = map decoded_name isos'"
    by (simp add: idxs_def comp_def unat_idx_byte decode_name decoded_name_def)
  have ui: "unpack_indices bytes 1 k [] = Inr (map decoded_name isos', 1 + k)"
    using unpack_indices_eq[of "[cnt]" idxs "concat (map H_bytes vs) @ [fb]" "[]"] dec ilen
    by (simp add: bytes_def)
  have vr: "\<forall>v \<in> set vs. 0 \<le> v \<and> v \<le> 65535"
  proof
    fix v assume "v \<in> set vs"
    then obtain n where n: "n \<in> set isos'" "v = scaled_of m (dict_get acts n 0)"
      by (auto simp: vs_def)
    obtain p where "product_of m (dict_get acts n 0) = Fin p"
      using fin n(1) by (auto simp: isos'_def)
    then show "0 \<le> v \<and> v \<le> 65535" using scaled_of_range n(2) by blast
  qed
  have ua: "unpack_activities m bytes (1 + k) (map decoded_name isos') Map.empty =
              Inr (store_activities m (map decoded_name isos') vs Map.empty, 1 + k + 2 * k)"
    using unpack_activities_eq[of "map decoded_name isos'" vs m "[cnt] @ idxs" "[fb]" Map.empty] vr
    by (simp add: bytes_def klen vlen ilen)
  have bf: "bytes_index bytes (1 + k + 2 * k) = Inr (unat fb)"
  proof -
    have len3: "length ([cnt] @ idxs @ concat (map H_bytes vs)) = 1 + k + 2 * k"
      by (simp add: ilen vlen length_concat comp_def H_bytes_def sum_list_triv)
    show ?thesis
      using bytes_index_mid[of "[cnt] @ idxs @ concat (map H_bytes vs)" fb "[]"]
      unfolding len3 by (simp add: bytes_def)
  qed
  have "unpack_labels m bytes =
       Inr \<lparr> isotopes = map decoded_name isos',
             activities = store_activities m (map decoded_name isos') vs Map.empty,
             normalized = dict_get flags ''normalized'' True,
             include_k40 = dict_get flags ''include_k40'' True,
             include_radon = dict_get flags ''include_radon'' True,
             include_thorium = dict_get flags ''include_thorium'' True \<rparr>"
    unfolding unpack_labels_def b0 using ui ua bf flag_bits[of flags]
    by (simp add: fb_def)
  then show ?thesis using pk by (simp add: vs_def)
qed

lemma dom_if_Some: "dom (\<lambda>x. if x \<in> S then Some (f x) else None) = S"
  by (auto simp: dom_def split: if_splits)

lemma floor_div_error:
  fixes x c :: real
  assumes "0 < c"
  shows "\<bar>real_of_int \<lfloor>x\<rfloor> / c - x / c\<bar> \<le> 1 / c"
proof -
  have f1: "real_of_int \<lfloor>x\<rfloor> \<le> x" and f2: "x < real_of_int \<lfloor>x\<rfloor> + 1" by simp_all
  have "real_of_int \<lfloor>x\<rfloor> / c - x / c = (real_of_int \<lfloor>x\<rfloor> - x) / c"
    by (simp add: diff_divide_distrib)
  moreover have "\<bar>(real_of_int \<lfloor>x\<rfloor> - x) / c\<bar> = \<bar>real_of_int \<lfloor>x\<rfloor> - x\<bar> / c"
    using assms by simp
  moreover have "\<bar>real_of_int \<lfloor>x\<rfloor> - x\<bar> \<le> 1" using f1 f2 by linarith
  ultimately show ?thesis using assms by (simp add: divide_right_mono)
qed

text \<open>
  The quantisation in the arithmetic without rounding.
\<close>

lemma product_of_exact: "product_of exact_fpu a = Fin (min a 1000 * 65.535)"
  by (simp add: product_of_def exact_fpu_simps)

lemma decode_activity_exact: "decode_activity exact_fpu v = Fin (real_of_int v / 65.535)"
  by (simp add: decode_activity_def exact_fpu_simps)

lemma scaled_of_exact:
  assumes "0 \<le> a" "a \<le> 1000"
  shows "scaled_of exact_fpu a = \<lfloor>a * 65.535\<rfloor>"
proof -
  have m: "min a 1000 = a" using assms by simp
  have nn: "0 \<le> a * 65.535" using assms by simp
  have "a * 65.535 \<le> 65535" using assms by simp
  then have up: "\<lfloor>a * 65.535\<rfloor> \<le> 65535" by (simp add: floor_le_iff)
  have lo: "0 \<le> \<lfloor>a * 65.535\<rfloor>" using nn by simp
  have "scale_activity exact_fpu a = Inr (max 0 (min 65535 \<lfloor>a * 65.535\<rfloor>))"
    using scale_activity_Fin[OF product_of_exact, of a] nn unfolding m by simp
  then show ?thesis using up lo by (simp add: scaled_of_def)
qed

lemma quantisation_error:
  assumes "0 \<le> a" "a \<le> 1000"
  shows "\<bar>real_of_int (scaled_of exact_fpu a) / 65.535 - a\<bar> \<le> 1 / 65.535"
proof -
  have s: "scaled_of exact_fpu a = \<lfloor>a * 65.535\<rfloor>" using assms by (rule scaled_of_exact)
  have a: "a = (a * 65.535) / 65.535" by simp
  have "\<bar>real_of_int \<lfloor>a * 65.535\<rfloor> / 65.535 - (a * 65.535) / 65.535\<bar> \<le> 1 / 65.535"
    by (rule floor_div_error) simp
  then show ?thesis unfolding s using a by simp
qed

text \<open>
  Claim C1. For every label whose isotope list has at most 255 names, each of them a key
  of the master index, and whose activities (\<open>activities.get(name, 0.0)\<close>) lie in
  \<open>[0, 1000]\<close>, \<open>unpack_labels(pack_labels(...))\<close> succeeds, returns the same list of
  names, an activity within \<open>1 / 65.535\<close> of the original for each of them, and the
  four flags unchanged (a flag missing from the dictionary counts as set). The names
  and the flags are bytes; the bound on the activities is that of the quantisation
  formulas, in the arithmetic without rounding (\<open>exact_fpu\<close>).
\<close>

theorem C1_label_round_trip:
  assumes len: "length isos \<le> 255"
    and known: "set isos \<subseteq> dom ISOTOPE_INDEX"
    and range: "\<forall>n \<in> set isos. 0 \<le> dict_get acts n 0 \<and> dict_get acts n 0 \<le> 1000"
  shows "\<exists>bytes lbl. pack_labels exact_fpu isos acts flags = Inr bytes
           \<and> unpack_labels exact_fpu bytes = Inr lbl
           \<and> isotopes lbl = isos
           \<and> dom (activities lbl) = set isos
           \<and> (\<forall>n \<in> set isos. \<exists>v. activities lbl n = Some (Fin v)
                  \<and> \<bar>v - dict_get acts n 0\<bar> \<le> 1 / 65.535)
           \<and> normalized lbl = dict_get flags ''normalized'' True
           \<and> include_k40 lbl = dict_get flags ''include_k40'' True
           \<and> include_radon lbl = dict_get flags ''include_radon'' True
           \<and> include_thorium lbl = dict_get flags ''include_thorium'' True"
proof -
  have tk: "take 255 isos = isos" using len by simp
  have dn: "map decoded_name isos = isos"
  proof (rule map_idI)
    fix n assume "n \<in> set isos"
    then show "decoded_name n = n" using known by (auto simp: decoded_name_def dom_ISOTOPE_INDEX)
  qed
  have fin: "\<forall>n \<in> set (take 255 isos). \<exists>p. product_of exact_fpu (dict_get acts n 0) = Fin p"
    using product_of_exact by blast
  obtain bytes where pk: "pack_labels exact_fpu isos acts flags = Inr bytes"
    and up: "unpack_labels exact_fpu bytes =
       Inr \<lparr> isotopes = isos,
             activities = store_activities exact_fpu isos
                            (map (\<lambda>n. scaled_of exact_fpu (dict_get acts n 0)) isos) Map.empty,
             normalized = dict_get flags ''normalized'' True,
             include_k40 = dict_get flags ''include_k40'' True,
             include_radon = dict_get flags ''include_radon'' True,
             include_thorium = dict_get flags ''include_thorium'' True \<rparr>"
    using unpack_pack_labels[OF fin, of flags] unfolding tk dn by blast
  have st: "store_activities exact_fpu isos
              (map (\<lambda>n. scaled_of exact_fpu (dict_get acts n 0)) isos) Map.empty =
     (\<lambda>x. if x \<in> set isos
          then Some (decode_activity exact_fpu (scaled_of exact_fpu (dict_get acts x 0)))
          else None)"
    by (rule store_activities_same)
  have q: "\<forall>n \<in> set isos.
      \<bar>real_of_int (scaled_of exact_fpu (dict_get acts n 0)) / 65.535 - dict_get acts n 0\<bar>
        \<le> 1 / 65.535"
    using range quantisation_error by blast
  let ?lbl = "\<lparr> isotopes = isos,
             activities = store_activities exact_fpu isos
                            (map (\<lambda>n. scaled_of exact_fpu (dict_get acts n 0)) isos) Map.empty,
             normalized = dict_get flags ''normalized'' True,
             include_k40 = dict_get flags ''include_k40'' True,
             include_radon = dict_get flags ''include_radon'' True,
             include_thorium = dict_get flags ''include_thorium'' True \<rparr>"
  have d: "dom (activities ?lbl) = set isos"
    unfolding st by (simp add: dom_if_Some)
  have a: "\<forall>n \<in> set isos. \<exists>v. activities ?lbl n = Some (Fin v)
                  \<and> \<bar>v - dict_get acts n 0\<bar> \<le> 1 / 65.535"
  proof
    fix n assume n: "n \<in> set isos"
    have "activities ?lbl n
            = Some (Fin (real_of_int (scaled_of exact_fpu (dict_get acts n 0)) / 65.535))"
      using n by (simp add: st decode_activity_exact)
    then show "\<exists>v. activities ?lbl n = Some (Fin v) \<and> \<bar>v - dict_get acts n 0\<bar> \<le> 1 / 65.535"
      using q n by blast
  qed
  have "unpack_labels exact_fpu bytes = Inr ?lbl \<and> isotopes ?lbl = isos
        \<and> dom (activities ?lbl) = set isos
        \<and> (\<forall>n \<in> set isos. \<exists>v. activities ?lbl n = Some (Fin v)
                  \<and> \<bar>v - dict_get acts n 0\<bar> \<le> 1 / 65.535)
        \<and> normalized ?lbl = dict_get flags ''normalized'' True
        \<and> include_k40 ?lbl = dict_get flags ''include_k40'' True
        \<and> include_radon ?lbl = dict_get flags ''include_radon'' True
        \<and> include_thorium ?lbl = dict_get flags ''include_thorium'' True"
    using up d a by simp
  then show ?thesis using pk by blast
qed

text \<open>
  The theorem at the label of a 50 Bq Cs-137 source with its daughter Ba-137m.
\<close>

theorem C1_label_round_trip_witness:
  "length [''Cs-137'', ''Ba-137m''] \<le> 255
   \<and> set [''Cs-137'', ''Ba-137m''] \<subseteq> dom ISOTOPE_INDEX
   \<and> 0 \<le> dict_get [''Cs-137'' \<mapsto> 50 :: real] ''Cs-137'' 0
   \<and> dict_get [''Cs-137'' \<mapsto> 50 :: real] ''Ba-137m'' 0 \<le> 1000
   \<and> (\<exists>bytes lbl.
         pack_labels exact_fpu [''Cs-137'', ''Ba-137m''] [''Cs-137'' \<mapsto> 50]
             [''include_radon'' \<mapsto> False] = Inr bytes
         \<and> unpack_labels exact_fpu bytes = Inr lbl
         \<and> isotopes lbl = [''Cs-137'', ''Ba-137m'']
         \<and> (\<exists>v. activities lbl ''Cs-137'' = Some (Fin v) \<and> \<bar>v - 50\<bar> \<le> 1 / 65.535)
         \<and> normalized lbl \<and> \<not> include_radon lbl)"
proof -
  have h1: "length [''Cs-137'', ''Ba-137m''] \<le> 255" by simp
  have h2: "set [''Cs-137'', ''Ba-137m''] \<subseteq> dom ISOTOPE_INDEX"
    using ISOTOPE_INDEX_Cs137 ISOTOPE_INDEX_Ba137m by auto
  have h3: "\<forall>n \<in> set [''Cs-137'', ''Ba-137m''].
      0 \<le> dict_get [''Cs-137'' \<mapsto> 50 :: real] n 0 \<and> dict_get [''Cs-137'' \<mapsto> 50 :: real] n 0 \<le> 1000"
    by (simp add: dict_get_def)
  obtain bytes lbl where
    r: "pack_labels exact_fpu [''Cs-137'', ''Ba-137m''] [''Cs-137'' \<mapsto> 50]
          [''include_radon'' \<mapsto> False] = Inr bytes"
       "unpack_labels exact_fpu bytes = Inr lbl" "isotopes lbl = [''Cs-137'', ''Ba-137m'']"
       "\<forall>n \<in> set [''Cs-137'', ''Ba-137m'']. \<exists>v. activities lbl n = Some (Fin v)
            \<and> \<bar>v - dict_get [''Cs-137'' \<mapsto> 50 :: real] n 0\<bar> \<le> 1 / 65.535"
       "normalized lbl = dict_get [''include_radon'' \<mapsto> False] ''normalized'' True"
       "include_radon lbl = dict_get [''include_radon'' \<mapsto> False] ''include_radon'' True"
    using C1_label_round_trip[OF h1 h2 h3, of "[''include_radon'' \<mapsto> False]"] by blast
  from r(4) have "\<exists>v. activities lbl ''Cs-137'' = Some (Fin v)
            \<and> \<bar>v - dict_get [''Cs-137'' \<mapsto> 50 :: real] ''Cs-137'' 0\<bar> \<le> 1 / 65.535"
    by simp
  then have a: "\<exists>v. activities lbl ''Cs-137'' = Some (Fin v) \<and> \<bar>v - 50\<bar> \<le> 1 / 65.535"
    by (simp add: dict_get_def)
  have f: "normalized lbl" "\<not> include_radon lbl"
    using r(5,6) by (simp_all add: dict_get_def)
  have g: "0 \<le> dict_get [''Cs-137'' \<mapsto> 50 :: real] ''Cs-137'' 0"
          "dict_get [''Cs-137'' \<mapsto> 50 :: real] ''Ba-137m'' 0 \<le> 1000"
    by (simp_all add: dict_get_def)
  show ?thesis using h1 h2 g r(1,2,3) a f by blast
qed

lemma scale_activity_saturates:
  "1000 \<le> a \<Longrightarrow> scale_activity m a = scale_activity m 1000"
  by (simp add: scale_activity_def min_def)

text \<open>
  Claim C7, as amended. For every machine arithmetic and every activity \<open>a \<ge> 0\<close>, let
  \<open>p\<close> be the double the machine computes for \<open>min(a, 1000.0) * 65.535\<close>, finite and in
  \<open>[0, 65536)\<close>. The encoder appends two bytes that read back, as a little-endian
  unsigned 16-bit integer, as the floor of \<open>p\<close> (the code truncates the computed
  product with \<open>int\<close>, it does not round it); the decoder returns the machine's
  quotient of that integer by \<open>65.535\<close>; and every activity of 1000 Bq or more is
  stored as 1000 Bq is.
\<close>

theorem C7_activity_quantisation:
  assumes a: "0 \<le> a"
    and p: "f_mul m (Fin (min a 1000)) (f_lit m 65.535) = Fin p"
    and p0: "0 \<le> p" and p1: "p < 65536"
  shows "\<exists>lo hi. pack_activities m data [n] (acts(n \<mapsto> a)) = Inr (data @ [lo, hi])
      \<and> struct_unpack_H [lo, hi] = Inr \<lfloor>p\<rfloor>
      \<and> unpack_activities m (data @ [lo, hi]) (length data) [n] decoded
          = Inr (decoded(n \<mapsto> f_div m (Fin (real_of_int \<lfloor>p\<rfloor>)) (f_lit m 65.535)),
                 length data + 2)
      \<and> (1000 \<le> a \<longrightarrow> scale_activity m a = scale_activity m 1000)"
proof -
  define v where "v = \<lfloor>p\<rfloor>"
  have vr: "0 \<le> v" "v \<le> 65535" using p0 p1 by (simp_all add: v_def floor_less_iff)
  have pr: "product_of m a = Fin p" using p by (simp add: product_of_def)
  have sc: "scale_activity m a = Inr v"
    using scale_activity_Fin[OF pr] p0 vr by (simp add: v_def)
  have hp: "struct_pack_H v = Inr [word_of_int v, word_of_int (v div 256)]"
    using vr by (simp add: struct_pack_H_def)
  have pk: "pack_activities m data [n] (acts(n \<mapsto> a))
              = Inr (data @ [word_of_int v, word_of_int (v div 256)])"
    by (simp add: dict_get_def sc hp)
  have un: "struct_unpack_H [word_of_int v, word_of_int (v div 256)] = Inr v"
    using vr by (rule H_round)
  have ua: "unpack_activities m (data @ [word_of_int v, word_of_int (v div 256)]) (length data)
              [n] decoded
          = Inr (decoded(n \<mapsto> f_div m (Fin (real_of_int v)) (f_lit m 65.535)), length data + 2)"
    using un by (simp add: decode_activity_def)
  have sat: "1000 \<le> a \<longrightarrow> scale_activity m a = scale_activity m 1000"
    using scale_activity_saturates by blast
  show ?thesis unfolding v_def[symmetric] using pk un ua sat by blast
qed

text \<open>
  The theorem at 1500 Bq, which saturates at 65535.
\<close>

theorem C7_activity_quantisation_witness:
  "(0::real) \<le> 1500
   \<and> f_mul exact_fpu (Fin (min 1500 1000)) (f_lit exact_fpu 65.535) = Fin 65535
   \<and> (0::real) \<le> 65535 \<and> (65535::real) < 65536 \<and> (1000::real) \<le> 1500
   \<and> pack_activities exact_fpu [] [''Cs-137''] [''Cs-137'' \<mapsto> 1500] = Inr [255, 255]
   \<and> struct_unpack_H [255, 255] = Inr 65535
   \<and> scale_activity exact_fpu 1500 = scale_activity exact_fpu 1000"
proof -
  have h1: "(0::real) \<le> 1500" by simp
  have h2: "f_mul exact_fpu (Fin (min 1500 1000)) (f_lit exact_fpu 65.535) = Fin 65535"
    by (simp add: exact_fpu_simps)
  have h3: "(0::real) \<le> 65535" and h4: "(65535::real) < 65536" and h5: "(1000::real) \<le> 1500"
    by simp_all
  obtain lo hi where
    r: "pack_activities exact_fpu [] [''Cs-137''] (Map.empty(''Cs-137'' \<mapsto> 1500)) = Inr ([] @ [lo, hi])"
       "struct_unpack_H [lo, hi] = Inr \<lfloor>65535 :: real\<rfloor>"
       "1000 \<le> (1500::real) \<longrightarrow> scale_activity exact_fpu 1500 = scale_activity exact_fpu 1000"
    using C7_activity_quantisation[OF h1 h2 h3 h4, of "[]" "''Cs-137''" Map.empty] by blast
  have p: "pack_activities exact_fpu [] [''Cs-137''] [''Cs-137'' \<mapsto> 1500] = Inr [255, 255]"
    by (simp add: struct_pack_H_def scale_activity_def py_int_def dict_get_def exact_fpu_simps)
  from r(1) p have "[lo, hi] = [255, 255]" by simp
  then have u: "struct_unpack_H [255, 255] = Inr 65535" using r(2) by simp
  have s: "scale_activity exact_fpu 1500 = scale_activity exact_fpu 1000" using r(3) h5 by (rule mp)
  from h1 h2 h3 h4 h5 p u s show ?thesis by (intro conjI)
qed

text \<open>
  Claim C7 as stated fails at 0.01 Bq: \<open>0.01 * 65.535 = 0.65535\<close> rounds to 1, and the
  encoder stores 0.
\<close>

theorem C7_round_counterexample:
  "pack_activities exact_fpu [] [''Cs-137''] [''Cs-137'' \<mapsto> 0.01] = Inr [0, 0]
   \<and> struct_unpack_H [0, 0] = Inr 0
   \<and> round (min (0.01 :: real) 1000 * 65.535) = 1"
  by (simp add: struct_pack_H_def struct_unpack_H_def scale_activity_def py_int_def dict_get_def
      exact_fpu_simps round_def)

text \<open>
  Claim C9. For every machine arithmetic in which the scaled activity
  \<open>min(activity, 1000.0) * 65.535\<close> of each listed name is finite (\<open>int()\<close> raises on an
  infinite one), \<open>pack_labels\<close> returns bytes for every list of names, in the master
  index or not; a name outside the index is stored as index byte 0, the index of K-40,
  so the decoded list holds K-40 in its place; and whenever some input name is outside
  the index the decoded set of names differs from the encoded one.
\<close>

theorem C9_unknown_name_encoded_as_index_0:
  assumes fin: "\<forall>n \<in> set (take 255 isos).
      \<exists>p. f_mul m (Fin (min (dict_get acts n 0) 1000)) (f_lit m 65.535) = Fin p"
  shows "\<exists>bytes lbl. pack_labels m isos acts flags = Inr bytes
      \<and> (\<forall>i < min (length isos) 255. isos ! i \<notin> dom ISOTOPE_INDEX \<longrightarrow> bytes ! (1 + i) = 0)
      \<and> INDEX_TO_ISOTOPE 0 = Some ''K-40''
      \<and> unpack_labels m bytes = Inr lbl
      \<and> isotopes lbl = map (\<lambda>n. if n \<in> dom ISOTOPE_INDEX then n else ''K-40'') (take 255 isos)
      \<and> (\<not> set isos \<subseteq> dom ISOTOPE_INDEX \<longrightarrow> set (isotopes lbl) \<noteq> set isos)"
proof -
  have fin': "\<forall>n \<in> set (take 255 isos). \<exists>p. product_of m (dict_get acts n 0) = Fin p"
    using fin by (simp add: product_of_def)
  let ?f = "\<lambda>n. word_of_nat (dict_get ISOTOPE_INDEX n 0) :: byte"
  let ?rest = "concat (map (\<lambda>n. H_bytes (scaled_of m (dict_get acts n 0))) (take 255 isos))
                 @ [pack_flag_byte flags]"
  let ?bytes = "[word_of_nat (min (length isos) 255)] @ map ?f (take 255 isos) @ ?rest"
  have pk: "pack_labels m isos acts flags = Inr ?bytes" by (rule pack_labels_eq[OF fin'])
  let ?lbl = "\<lparr> isotopes = map decoded_name (take 255 isos),
             activities = store_activities m (map decoded_name (take 255 isos))
                            (map (\<lambda>n. scaled_of m (dict_get acts n 0)) (take 255 isos)) Map.empty,
             normalized = dict_get flags ''normalized'' True,
             include_k40 = dict_get flags ''include_k40'' True,
             include_radon = dict_get flags ''include_radon'' True,
             include_thorium = dict_get flags ''include_thorium'' True \<rparr>"
  obtain bytes' where pk': "pack_labels m isos acts flags = Inr bytes'"
    and up: "unpack_labels m bytes' = Inr ?lbl"
    using unpack_pack_labels[OF fin', of flags] by blast
  have b: "bytes' = ?bytes" using pk pk' by simp
  have zero: "\<forall>i < min (length isos) 255. isos ! i \<notin> dom ISOTOPE_INDEX \<longrightarrow> ?bytes ! (1 + i) = 0"
  proof (intro allI impI)
    fix i assume i: "i < min (length isos) 255" and out: "isos ! i \<notin> dom ISOTOPE_INDEX"
    have li: "i < length (map ?f (take 255 isos))" using i by simp
    have "?bytes ! (1 + i) = (map ?f (take 255 isos) @ ?rest) ! i" by simp
    also have "\<dots> = map ?f (take 255 isos) ! i" using li by (simp only: nth_append if_True)
    also have "\<dots> = ?f (isos ! i)" using i by simp
    also have "\<dots> = 0" using out by (simp add: dict_get_def dom_def)
    finally show "?bytes ! (1 + i) = 0" .
  qed
  have names: "isotopes ?lbl = map (\<lambda>n. if n \<in> dom ISOTOPE_INDEX then n else ''K-40'') (take 255 isos)"
    by (simp add: decoded_name_def dom_ISOTOPE_INDEX)
  have differ: "\<not> set isos \<subseteq> dom ISOTOPE_INDEX \<longrightarrow> set (isotopes ?lbl) \<noteq> set isos"
  proof
    assume "\<not> set isos \<subseteq> dom ISOTOPE_INDEX"
    then obtain n where n: "n \<in> set isos" "n \<notin> set all_isotopes_names"
      by (auto simp: dom_ISOTOPE_INDEX)
    have "set (isotopes ?lbl) \<subseteq> set all_isotopes_names"
      using decoded_in_master by auto
    then show "set (isotopes ?lbl) \<noteq> set isos" using n by blast
  qed
  have "pack_labels m isos acts flags = Inr ?bytes
      \<and> (\<forall>i < min (length isos) 255. isos ! i \<notin> dom ISOTOPE_INDEX \<longrightarrow> ?bytes ! (1 + i) = 0)
      \<and> INDEX_TO_ISOTOPE 0 = Some ''K-40''
      \<and> unpack_labels m ?bytes = Inr ?lbl
      \<and> isotopes ?lbl = map (\<lambda>n. if n \<in> dom ISOTOPE_INDEX then n else ''K-40'') (take 255 isos)
      \<and> (\<not> set isos \<subseteq> dom ISOTOPE_INDEX \<longrightarrow> set (isotopes ?lbl) \<noteq> set isos)"
    using pk zero INDEX_TO_ISOTOPE_0 up[unfolded b] names differ by blast
  then show ?thesis by blast
qed

text \<open>
  The theorem at a label that names Zr-95, which the database does not hold.
\<close>

theorem C9_unknown_name_witness:
  "f_mul exact_fpu (Fin (min (dict_get [''Zr-95'' \<mapsto> 10, ''Cs-137'' \<mapsto> 20] ''Zr-95'' 0) 1000))
       (f_lit exact_fpu 65.535) = Fin 655.35
   \<and> f_mul exact_fpu (Fin (min (dict_get [''Zr-95'' \<mapsto> 10, ''Cs-137'' \<mapsto> 20] ''Cs-137'' 0) 1000))
       (f_lit exact_fpu 65.535) = Fin 1310.7
   \<and> 0 < min (length [''Zr-95'', ''Cs-137'']) 255 \<and> [''Zr-95'', ''Cs-137''] ! 0 \<notin> dom ISOTOPE_INDEX
   \<and> \<not> set [''Zr-95'', ''Cs-137''] \<subseteq> dom ISOTOPE_INDEX
   \<and> pack_labels exact_fpu [''Zr-95'', ''Cs-137''] [''Zr-95'' \<mapsto> 10, ''Cs-137'' \<mapsto> 20] Map.empty
        = Inr [2, 0, 30, 143, 2, 30, 5, 15]
   \<and> (\<exists>lbl. unpack_labels exact_fpu [2, 0, 30, 143, 2, 30, 5, 15] = Inr lbl
          \<and> isotopes lbl = [''K-40'', ''Cs-137'']
          \<and> set (isotopes lbl) \<noteq> set [''Zr-95'', ''Cs-137''])"
proof -
  let ?acts = "[''Zr-95'' \<mapsto> 10, ''Cs-137'' \<mapsto> 20 :: real]"
  have f1: "f_mul exact_fpu (Fin (min (dict_get ?acts ''Zr-95'' 0) 1000))
       (f_lit exact_fpu 65.535) = Fin 655.35"
    and f2: "f_mul exact_fpu (Fin (min (dict_get ?acts ''Cs-137'' 0) 1000))
       (f_lit exact_fpu 65.535) = Fin 1310.7"
    by (simp_all add: exact_fpu_simps dict_get_def)
  have fin: "\<forall>n \<in> set (take 255 [''Zr-95'', ''Cs-137'']).
      \<exists>p. f_mul exact_fpu (Fin (min (dict_get ?acts n 0) 1000)) (f_lit exact_fpu 65.535) = Fin p"
    using product_of_exact[unfolded product_of_def] by blast
  have h1: "0 < min (length [''Zr-95'', ''Cs-137'']) 255" by simp
  have h2: "[''Zr-95'', ''Cs-137''] ! 0 \<notin> dom ISOTOPE_INDEX"
    using ISOTOPE_INDEX_Zr95 by (simp add: dom_def)
  have h3: "\<not> set [''Zr-95'', ''Cs-137''] \<subseteq> dom ISOTOPE_INDEX"
    using ISOTOPE_INDEX_Zr95 by (simp add: dom_def)
  have p: "pack_labels exact_fpu [''Zr-95'', ''Cs-137''] ?acts Map.empty
        = Inr [2, 0, 30, 143, 2, 30, 5, 15]"
    by (simp add: pack_labels_def bytearray_append_def struct_pack_H_def scale_activity_def
        py_int_def dict_get_def pack_flag_byte_def ISOTOPE_INDEX_Zr95 ISOTOPE_INDEX_Cs137 Let_def
        exact_fpu_simps)
  obtain bytes lbl where r:
      "pack_labels exact_fpu [''Zr-95'', ''Cs-137''] ?acts Map.empty = Inr bytes"
      "unpack_labels exact_fpu bytes = Inr lbl"
      "isotopes lbl = map (\<lambda>n. if n \<in> dom ISOTOPE_INDEX then n else ''K-40'')
                        (take 255 [''Zr-95'', ''Cs-137''])"
      "\<not> set [''Zr-95'', ''Cs-137''] \<subseteq> dom ISOTOPE_INDEX \<longrightarrow>
         set (isotopes lbl) \<noteq> set [''Zr-95'', ''Cs-137'']"
    using C9_unknown_name_encoded_as_index_0[OF fin, of Map.empty] by blast
  have b: "bytes = [2, 0, 30, 143, 2, 30, 5, 15]" using r(1) p by simp
  have n: "isotopes lbl = [''K-40'', ''Cs-137'']"
    using r(3) ISOTOPE_INDEX_Zr95 ISOTOPE_INDEX_Cs137 by (simp add: dom_def)
  have d: "set (isotopes lbl) \<noteq> set [''Zr-95'', ''Cs-137'']" using r(4) h3 by (rule mp)
  have e: "\<exists>lbl. unpack_labels exact_fpu [2, 0, 30, 143, 2, 30, 5, 15] = Inr lbl
          \<and> isotopes lbl = [''K-40'', ''Cs-137'']
          \<and> set (isotopes lbl) \<noteq> set [''Zr-95'', ''Cs-137'']"
    using r(2)[unfolded b] n d by blast
  from f1 f2 h1 h2 h3 p e show ?thesis by (intro conjI)
qed

section \<open>Properties of the parent inference\<close>

lemma py_sort_reverse_mset: "mset (py_sort_reverse f xs) = mset xs"
  by (simp add: py_sort_reverse_def)

lemma py_sort_reverse_sorted: "sorted_wrt (\<lambda>a b. f b \<le> f a) (py_sort_reverse f xs)"
proof -
  have "sorted (map f (sort_key f (rev xs)))" by simp
  then have "sorted_wrt (\<lambda>a b. f a \<le> f b) (sort_key f (rev xs))"
    by (simp add: sorted_map)
  then show ?thesis by (simp add: py_sort_reverse_def sorted_wrt_rev)
qed

lemma py_sort_reverse_stable:
  "filter (\<lambda>y. f y = k) (py_sort_reverse f xs) = filter (\<lambda>y. f y = k) xs"
  by (simp add: py_sort_reverse_def rev_filter[symmetric] sort_key_stable)

lemma code_confidence_optional:
  assumes fr: "finite (required_daughters s)" and o: "card (optional_daughters s) > 0"
  shows "min 1 (real (card (d \<inter> required_daughters s)) / real (card (required_daughters s))
                + 0.1 * real (card (d \<inter> optional_daughters s)) / real (card (optional_daughters s)))
         = spec_confidence d s"
proof -
  have "optional_daughters s \<noteq> {}" using o by auto
  then show ?thesis by (simp add: spec_confidence_def Int_commute)
qed

lemma code_confidence_plain:
  assumes fr: "finite (required_daughters s)" and fo: "finite (optional_daughters s)"
    and o: "card (optional_daughters s) = 0"
  shows "real (card (d \<inter> required_daughters s)) / real (card (required_daughters s))
         = spec_confidence d s"
proof -
  have le: "card (d \<inter> required_daughters s) \<le> card (required_daughters s)"
    using fr by (simp add: card_mono)
  have frac: "real (card (d \<inter> required_daughters s)) / real (card (required_daughters s)) \<le> 1"
    by (cases "card (required_daughters s) = 0") (use le in \<open>simp_all add: pos_divide_le_eq\<close>)
  have "optional_daughters s = {}" using fo o by simp
  then show ?thesis using frac by (simp add: spec_confidence_def Int_commute)
qed

lemma infer_loop_eq:
  assumes "\<forall>(k, s) \<in> set sigs. finite (required_daughters s) \<and> finite (optional_daughters s)"
  shows "infer_loop d sigs acc =
           acc @ map (spec_entry d) (filter (\<lambda>s. required_daughters s \<inter> d \<noteq> {}) (map snd sigs))"
  using assms
proof (induction sigs arbitrary: acc)
  case Nil
  then show ?case by simp
next
  case (Cons p sigs)
  obtain k s where p: "p = (k, s)" by (cases p)
  have fr: "finite (required_daughters s)" and fo: "finite (optional_daughters s)"
    using Cons.prems p by auto
  have g: "card (d \<inter> required_daughters s) > 0 \<longleftrightarrow> required_daughters s \<inter> d \<noteq> {}"
    using fr by (simp add: card_gt_0_iff Int_commute)
  have IH: "\<And>acc. infer_loop d sigs acc =
           acc @ map (spec_entry d) (filter (\<lambda>s. required_daughters s \<inter> d \<noteq> {}) (map snd sigs))"
    using Cons.prems by (intro Cons.IH) simp
  show ?case
  proof (cases "required_daughters s \<inter> d \<noteq> {}")
    case True
    show ?thesis
    proof (cases "card (optional_daughters s) > 0")
      case o: True
      show ?thesis
        using True g o code_confidence_optional[OF fr o, of d]
        by (simp add: p IH Let_def spec_entry_def)
    next
      case o: False
      then have o0: "card (optional_daughters s) = 0" by simp
      show ?thesis
        using True g o0 code_confidence_plain[OF fr fo o0, of d]
        by (simp add: p IH Let_def spec_entry_def)
    qed
  next
    case False
    then show ?thesis using g by (simp add: p IH Let_def)
  qed
qed

lemma CHAIN_SIGNATURES_finite:
  "\<forall>(k, s) \<in> set CHAIN_SIGNATURES. finite (required_daughters s) \<and> finite (optional_daughters s)"
  by (simp add: CHAIN_SIGNATURES_def)

lemma infer_unsorted:
  "infer_loop d CHAIN_SIGNATURES [] = map (spec_entry d) (spec_matching d)"
  using infer_loop_eq[OF CHAIN_SIGNATURES_finite, of d "[]"] by (simp add: spec_matching_def)

text \<open>
  Claim C4. For every set of detected isotope names, \<open>infer_parent_from_daughters\<close>
  returns exactly one entry for each registered signature whose required daughters
  meet the detected set and none for the others; each entry carries the signature's
  inferred parent and the specified confidence (\<open>spec_confidence\<close>: the fraction of
  required daughters found, plus a tenth of the fraction of optional daughters found
  when the signature has optional daughters, capped at 1); the list is in descending
  order of confidence, and entries of equal confidence stand in registration order.
\<close>

theorem C4_infer_parent_from_daughters:
  "mset (map (fst \<circ> snd) (infer_parent_from_daughters d)) = mset (spec_matching d)
   \<and> (\<forall>e \<in> set (infer_parent_from_daughters d).
         fst (snd e) \<in> set (spec_matching d) \<and> e = spec_entry d (fst (snd e)))
   \<and> sorted_wrt (\<lambda>a b. snd (snd b) \<le> snd (snd a)) (infer_parent_from_daughters d)
   \<and> (\<forall>c. filter (\<lambda>e. snd (snd e) = c) (infer_parent_from_daughters d)
            = filter (\<lambda>e. snd (snd e) = c) (map (spec_entry d) (spec_matching d)))"
proof -
  let ?u = "map (spec_entry d) (spec_matching d)"
  have r: "infer_parent_from_daughters d = py_sort_reverse (\<lambda>x. snd (snd x)) ?u"
    by (simp add: infer_parent_from_daughters_def infer_unsorted)
  have m: "mset (infer_parent_from_daughters d) = mset ?u"
    unfolding r by (rule py_sort_reverse_mset)
  have "mset (map (fst \<circ> snd) (infer_parent_from_daughters d)) = mset (map (fst \<circ> snd) ?u)"
    using m by (metis mset_map)
  also have "map (fst \<circ> snd) ?u = spec_matching d"
    by (simp add: comp_def spec_entry_def)
  finally have a: "mset (map (fst \<circ> snd) (infer_parent_from_daughters d)) = mset (spec_matching d)" .
  have "set (infer_parent_from_daughters d) = set ?u" using m by (metis set_mset_mset)
  then have b: "\<forall>e \<in> set (infer_parent_from_daughters d).
         fst (snd e) \<in> set (spec_matching d) \<and> e = spec_entry d (fst (snd e))"
    by (auto simp: spec_entry_def)
  have c: "sorted_wrt (\<lambda>a b. snd (snd b) \<le> snd (snd a)) (infer_parent_from_daughters d)"
    unfolding r by (rule py_sort_reverse_sorted)
  have e: "\<forall>c. filter (\<lambda>e. snd (snd e) = c) (infer_parent_from_daughters d)
            = filter (\<lambda>e. snd (snd e) = c) ?u"
    unfolding r by (simp add: py_sort_reverse_stable)
  show ?thesis using a b c e by blast
qed

text \<open>
  The theorem at a detected set that matches three signatures, all with confidence 1:
  they come out in registration order.
\<close>

theorem C4_infer_parent_witness:
  "map (\<lambda>e. (fst e, snd (snd e)))
       (infer_parent_from_daughters {''Pb-214'', ''Bi-214'', ''Po-214'', ''U-235''})
     = [(''Rn-222'', 1), (''Ra-226'', 1), (''U-235'', 1)]
   \<and> map sig_name (spec_matching {''Pb-214'', ''Bi-214'', ''Po-214'', ''U-235''})
     = [''Radon-222 Progeny'', ''Ra-226 Secular Equilibrium'', ''U-235 Direct'']
   \<and> sorted_wrt (\<lambda>a b. snd (snd b) \<le> snd (snd a))
        (infer_parent_from_daughters {''Pb-214'', ''Bi-214'', ''Po-214'', ''U-235''})
   \<and> filter (\<lambda>e. snd (snd e) = 1)
        (infer_parent_from_daughters {''Pb-214'', ''Bi-214'', ''Po-214'', ''U-235''})
     = filter (\<lambda>e. snd (snd e) = 1)
         (map (spec_entry {''Pb-214'', ''Bi-214'', ''Po-214'', ''U-235''})
              (spec_matching {''Pb-214'', ''Bi-214'', ''Po-214'', ''U-235''}))"
proof -
  let ?D = "{''Pb-214'', ''Bi-214'', ''Po-214'', ''U-235''}"
  have e: "map (\<lambda>e. (fst e, snd (snd e))) (infer_parent_from_daughters ?D)
     = [(''Rn-222'', 1), (''Ra-226'', 1), (''U-235'', 1)]"
    by (simp add: infer_parent_from_daughters_def CHAIN_SIGNATURES_def py_sort_reverse_def Let_def)
  have m: "map sig_name (spec_matching ?D)
     = [''Radon-222 Progeny'', ''Ra-226 Secular Equilibrium'', ''U-235 Direct'']"
    by (simp add: spec_matching_def CHAIN_SIGNATURES_def)
  have s: "sorted_wrt (\<lambda>a b. snd (snd b) \<le> snd (snd a)) (infer_parent_from_daughters ?D)"
    and t: "\<forall>c. filter (\<lambda>e. snd (snd e) = c) (infer_parent_from_daughters ?D)
            = filter (\<lambda>e. snd (snd e) = c) (map (spec_entry ?D) (spec_matching ?D))"
    using C4_infer_parent_from_daughters[of ?D] by blast+
  show ?thesis using e m s t by blast
qed

section \<open>Properties of the detector efficiency\<close>

text \<open>
  Claim C5, as amended. For every detector configuration with a volume that is not
  negative and every energy \<open>E \<ge> 0\<close>, \<open>detector_efficiency\<close> returns a value in
  \<open>[0, 1]\<close>, and the value is 0 for every energy below the fixed cut-off of 20 keV.
  The cut-off is not the configured \<open>energy_min_kev\<close>.
\<close>

theorem C5_detector_efficiency_bounds:
  assumes vol: "0 \<le> detector_volume_cm3 c" and E: "0 \<le> E"
  shows "\<exists>e. detector_efficiency E (Some c) = Inr e \<and> 0 \<le> e \<and> e \<le> 1 \<and> (E < 20 \<longrightarrow> e = 0)"
  using vol by (simp add: detector_efficiency_def Let_def)

text \<open>The theorem at \<open>radiacode_110\<close>, below the cut-off and at 662 keV.\<close>

theorem C5_detector_efficiency_witness:
  "0 \<le> detector_volume_cm3 radiacode_110 \<and> (0::real) \<le> 10 \<and> (10::real) < 20
   \<and> detector_efficiency 10 (Some radiacode_110) = Inr 0
   \<and> (\<exists>e. detector_efficiency 662 (Some radiacode_110) = Inr e \<and> 0 \<le> e \<and> e \<le> 1)"
proof -
  have v: "0 \<le> detector_volume_cm3 radiacode_110"
    by (simp add: radiacode_110_def default_DetectorConfig_def)
  obtain e where e: "detector_efficiency 10 (Some radiacode_110) = Inr e" "(10::real) < 20 \<longrightarrow> e = 0"
    using C5_detector_efficiency_bounds[OF v, of 10] by auto
  have z: "detector_efficiency 10 (Some radiacode_110) = Inr 0" using e by simp
  obtain e' where e': "detector_efficiency 662 (Some radiacode_110) = Inr e'" "0 \<le> e'" "e' \<le> 1"
    using C5_detector_efficiency_bounds[OF v, of 662] by auto
  show ?thesis using v z e' by auto
qed

lemma eff_22_pos: "0 < 4 / 5 * (1 - exp (- (11 / 25) :: real)) * exp (- (11 / 1000))"
  by simp

lemma scaled_product_le_1:
  fixes x y :: real
  assumes "0 \<le> x" "x \<le> 1" "0 \<le> y" "y \<le> 1"
  shows "4 / 5 * x * y \<le> 1"
proof -
  have "x * y \<le> 1" using assms by (simp add: mult_le_one)
  moreover have "4 / 5 * x * y = 4 / 5 * (x * y)" by simp
  ultimately show ?thesis by linarith
qed

lemma eff_22_le: "4 / 5 * (1 - exp (- (11 / 25) :: real)) * exp (- (11 / 1000)) \<le> 1"
  by (rule scaled_product_le_1) simp_all

text \<open>
  Claim C5 as stated fails for \<open>radiacode_103g\<close>, whose configured minimum is 25 keV:
  at 22 keV, below that minimum, the efficiency is positive.
\<close>

theorem C5_below_minimum_counterexample:
  "(22 :: real) < energy_min_kev radiacode_103g
   \<and> detector_efficiency 22 (Some radiacode_103g)
       = Inr (4 / 5 * (1 - exp (- (11 / 25))) * exp (- (11 / 1000)))
   \<and> (0 :: real) < 4 / 5 * (1 - exp (- (11 / 25))) * exp (- (11 / 1000))"
proof -
  have p: "0 \<le> 4 / 5 * (1 - exp (- (11 / 25) :: real)) * exp (- (11 / 1000))"
    using eff_22_pos by simp
  have "detector_efficiency 22 (Some radiacode_103g)
       = Inr (max 0 (min 1 (4 / 5 * (1 - exp (- (11 / 25))) * exp (- (11 / 1000)))))"
    by (simp add: detector_efficiency_def Let_def radiacode_103g_def default_DetectorConfig_def)
  then have "detector_efficiency 22 (Some radiacode_103g)
       = Inr (4 / 5 * (1 - exp (- (11 / 25))) * exp (- (11 / 1000)))"
    using p eff_22_le by (simp only: min_absorb2 max_absorb2)
  then show ?thesis using eff_22_pos
    by (simp add: radiacode_103g_def default_DetectorConfig_def)
qed

section \<open>Properties of the normalisation\<close>









section \<open>Properties of the fallout scenario\<close>

lemma VALID_FALLOUT_eq: "VALID_FALLOUT = [''Cs-137'', ''Cs-134'', ''I-131'', ''Cs-137'', ''Cs-134'']"
  by (simp add: VALID_FALLOUT_def get_valid_isotopes_def CHERNOBYL_FUKUSHIMA_def FRESH_FALLOUT_def
      ISOTOPE_INDEX_def dict_comprehension_def all_isotopes_names_def
      get_all_isotopes_def ISOTOPE_DATABASE_def enumerate_eq_zip)

text \<open>
  Claim C6. For every machine arithmetic and every generator, let \<open>a\<close> be the Cs-137
  activity the generator draws, \<open>f\<close> the age factor it draws next and \<open>u\<close> the draw of
  \<open>rng.random()\<close> after that. The sources returned are Cs-137 with activity \<open>a\<close>, then
  Cs-134 exactly when the double product \<open>a * f\<close> the machine computes is strictly
  greater than 0.5 (a product of exactly 0.5 omits it), with that product as its
  activity, then I-131 exactly when \<open>u\<close> is below the double the literal \<open>0.3\<close> denotes.
\<close>

theorem C6_generate_fallout:
  assumes a: "rng_uniform R g (Fin (fst activity_range)) (Fin (snd activity_range)) = (a, g1)"
    and f: "rng_uniform R g1 (f_lit m 0.1) (Fin 1) = (f, g2)"
    and u: "rng_random R g2 = (u, g3)"
  shows "fst (generate_fallout m R g activity_range) =
           [mk_IsotopeSource ''Cs-137'' a True]
           @ (if d_less (Fin 0.5) (f_mul m a f)
              then [mk_IsotopeSource ''Cs-134'' (f_mul m a f) True] else [])
           @ (if d_less u (f_lit m 0.3)
              then [mk_IsotopeSource ''I-131'' (fst (rng_uniform R g3 (Fin 1) (Fin 50))) True]
              else [])
         \<and> ((\<exists>s \<in> set (fst (generate_fallout m R g activity_range)). isotope_name s = ''Cs-134'')
               \<longleftrightarrow> d_less (Fin 0.5) (f_mul m a f))
         \<and> (\<forall>s \<in> set (fst (generate_fallout m R g activity_range)).
               isotope_name s = ''Cs-134'' \<longrightarrow> activity_bq s = f_mul m a f)
         \<and> ((\<exists>s \<in> set (fst (generate_fallout m R g activity_range)). isotope_name s = ''I-131'')
               \<longleftrightarrow> d_less u (f_lit m 0.3))"
proof -
  have l: "fst (generate_fallout m R g activity_range) =
           [mk_IsotopeSource ''Cs-137'' a True]
           @ (if d_less (Fin 0.5) (f_mul m a f)
              then [mk_IsotopeSource ''Cs-134'' (f_mul m a f) True] else [])
           @ (if d_less u (f_lit m 0.3)
              then [mk_IsotopeSource ''I-131'' (fst (rng_uniform R g3 (Fin 1) (Fin 50))) True]
              else [])"
    using a f u
    by (simp add: generate_fallout_def VALID_FALLOUT_eq Let_def case_prod_unfold)
  have c: "(\<exists>s \<in> set (fst (generate_fallout m R g activity_range)). isotope_name s = ''Cs-134'')
           \<longleftrightarrow> d_less (Fin 0.5) (f_mul m a f)"
    unfolding l by (auto simp: mk_IsotopeSource_def)
  have v: "\<forall>s \<in> set (fst (generate_fallout m R g activity_range)).
               isotope_name s = ''Cs-134'' \<longrightarrow> activity_bq s = f_mul m a f"
    unfolding l by (auto simp: mk_IsotopeSource_def)
  have i: "(\<exists>s \<in> set (fst (generate_fallout m R g activity_range)). isotope_name s = ''I-131'')
           \<longleftrightarrow> d_less u (f_lit m 0.3)"
    unfolding l by (auto simp: mk_IsotopeSource_def)
  from l c v i show ?thesis by (intro conjI)
qed

text \<open>
  The theorem at a generator that draws 10 Bq and the age factor 0.5, so that Cs-134 is
  included with 5 Bq, and then 0.2, so that I-131 is included.
\<close>

theorem C6_generate_fallout_witness:
  "rng_uniform replay_generator [Fin (1 / 11), Fin (4 / 9), Fin (1 / 5), Fin (1 / 2)]
       (Fin (fst (1, 100))) (Fin (snd (1, 100)))
     = (Fin 10, [Fin (4 / 9), Fin (1 / 5), Fin (1 / 2)])
   \<and> rng_uniform replay_generator [Fin (4 / 9), Fin (1 / 5), Fin (1 / 2)]
        (f_lit exact_fpu 0.1) (Fin 1)
     = (Fin (1 / 2), [Fin (1 / 5), Fin (1 / 2)])
   \<and> rng_random replay_generator [Fin (1 / 5), Fin (1 / 2)] = (Fin (1 / 5), [Fin (1 / 2)])
   \<and> f_mul exact_fpu (Fin 10) (Fin (1 / 2)) = Fin 5
   \<and> map (\<lambda>s. (isotope_name s, activity_bq s))
        (fst (generate_fallout exact_fpu replay_generator
                [Fin (1 / 11), Fin (4 / 9), Fin (1 / 5), Fin (1 / 2)] (1, 100)))
     = [(''Cs-137'', Fin 10), (''Cs-134'', Fin 5), (''I-131'', Fin (51 / 2))]"
proof -
  let ?g = "[Fin (1 / 11), Fin (4 / 9), Fin (1 / 5), Fin (1 / 2)]"
  have a: "rng_uniform replay_generator ?g (Fin (fst (1, 100))) (Fin (snd (1, 100)))
     = (Fin 10, [Fin (4 / 9), Fin (1 / 5), Fin (1 / 2)])"
    by (simp add: replay_generator_def replay_next_def x_sub_def)
  have f: "rng_uniform replay_generator [Fin (4 / 9), Fin (1 / 5), Fin (1 / 2)]
        (f_lit exact_fpu 0.1) (Fin 1)
     = (Fin (1 / 2), [Fin (1 / 5), Fin (1 / 2)])"
    by (simp add: replay_generator_def replay_next_def x_sub_def exact_fpu_def)
  have u: "rng_random replay_generator [Fin (1 / 5), Fin (1 / 2)] = (Fin (1 / 5), [Fin (1 / 2)])"
    by (simp add: replay_generator_def replay_next_def)
  have p: "f_mul exact_fpu (Fin 10) (Fin (1 / 2)) = Fin 5"
    by (simp add: exact_fpu_def)
  have l: "fst (generate_fallout exact_fpu replay_generator ?g (1, 100)) =
           [mk_IsotopeSource ''Cs-137'' (Fin 10) True]
           @ (if d_less (Fin 0.5) (f_mul exact_fpu (Fin 10) (Fin (1 / 2)))
              then [mk_IsotopeSource ''Cs-134'' (f_mul exact_fpu (Fin 10) (Fin (1 / 2))) True]
              else [])
           @ (if d_less (Fin (1 / 5)) (f_lit exact_fpu 0.3)
              then [mk_IsotopeSource ''I-131''
                      (fst (rng_uniform replay_generator [Fin (1 / 2)] (Fin 1) (Fin 50))) True]
              else [])"
    using C6_generate_fallout[OF a f u] by (rule conjunct1)
  have r: "map (\<lambda>s. (isotope_name s, activity_bq s))
        (fst (generate_fallout exact_fpu replay_generator ?g (1, 100)))
     = [(''Cs-137'', Fin 10), (''Cs-134'', Fin 5), (''I-131'', Fin (51 / 2))]"
    unfolding l
    by (simp add: mk_IsotopeSource_def exact_fpu_def replay_generator_def replay_next_def x_sub_def)
  from a f u p r show ?thesis by (intro conjI)
qed

end
